theory Spec2Isabelle
  imports Complex_Main "HOL-Library.Finite_Map" "HOL-Library.Sublist"
begin

section \<open>JavaScript values\<close>

text \<open>
  The catalog service (\<^verbatim>\<open>api/products.js\<close>) is untyped JavaScript: what it reads from the
  request and from the blob is whatever JSON held. Two value types keep the two worlds apart.

  \<^item> \<open>json\<close> is a JSON document as \<^verbatim>\<open>JSON.parse\<close> sees it: null, booleans, finite numbers,
    strings, arrays and objects. Objects are finite maps from key to value (key order is
    not observable through JSON content). The blob body, the request body and every
    response body are of this type.
  \<^item> \<open>jsval\<close> is a value inside the running handler: it adds \<^verbatim>\<open>undefined\<close> and the
    non-finite numbers, which \<^verbatim>\<open>Number(...)\<close> and a missing property produce.

  A number is represented by its exact rational value. Every finite double is a rational, so
  a statement about all \<open>rat\<close> covers all doubles; the two zeros are identified (the code
  never divides and never prints a sign of zero). No arithmetic is performed by the code.
\<close>

datatype jsnum = NaN | PosInf | NegInf | Fin rat

datatype json =
    JNull
  | JBool bool
  | JNumber rat
  | JString string
  | JArray "json list"
  | JObject "(string, json) fmap"

datatype jsval =
    Undefined
  | Null
  | Bool bool
  | Num jsnum
  | Str string
  | Arr "jsval list"
  | Obj "(string, jsval) fmap"

text \<open>\<^verbatim>\<open>JSON.parse\<close>, from the document to the value the code computes with.\<close>

primrec JSON_parse :: "json \<Rightarrow> jsval" where
  "JSON_parse JNull = Null"
| "JSON_parse (JBool b) = Bool b"
| "JSON_parse (JNumber q) = Num (Fin q)"
| "JSON_parse (JString s) = Str s"
| "JSON_parse (JArray xs) = Arr (map JSON_parse xs)"
| "JSON_parse (JObject m) = Obj (fmmap JSON_parse m)"

text \<open>
  \<^verbatim>\<open>JSON.stringify\<close>: \<^verbatim>\<open>undefined\<close> has no serialisation (\<open>None\<close>); as an array element
  it is written \<^verbatim>\<open>null\<close>, as a property value the property is left out. \<^verbatim>\<open>NaN\<close> and the
  infinities are written \<^verbatim>\<open>null\<close>.
\<close>

definition drop_undefined :: "('k, 'v option) fmap \<Rightarrow> ('k, 'v) fmap" where
  "drop_undefined m = fmmap the (fmfilter (\<lambda>k. fmlookup m k \<noteq> Some None) m)"

definition null_if_undefined :: "json option \<Rightarrow> json" where
  "null_if_undefined r = (case r of None \<Rightarrow> JNull | Some j \<Rightarrow> j)"

primrec JSON_stringify :: "jsval \<Rightarrow> json option" where
  "JSON_stringify Undefined = None"
| "JSON_stringify Null = Some JNull"
| "JSON_stringify (Bool b) = Some (JBool b)"
| "JSON_stringify (Num n) = Some (case n of Fin q \<Rightarrow> JNumber q | _ \<Rightarrow> JNull)"
| "JSON_stringify (Str s) = Some (JString s)"
| "JSON_stringify (Arr xs) = Some (JArray (map null_if_undefined (map JSON_stringify xs)))"
| "JSON_stringify (Obj m) = Some (JObject (drop_undefined (fmmap JSON_stringify m)))"

text \<open>Truthiness (\<^verbatim>\<open>!x\<close>, \<^verbatim>\<open>x ? a : b\<close>, \<^verbatim>\<open>x || y\<close>).\<close>

fun ToBoolean :: "jsval \<Rightarrow> bool" where
  "ToBoolean Undefined = False"
| "ToBoolean Null = False"
| "ToBoolean (Bool b) = b"
| "ToBoolean (Num n) = (n \<noteq> NaN \<and> n \<noteq> Fin 0)"
| "ToBoolean (Str s) = (s \<noteq> [])"
| "ToBoolean (Arr xs) = True"
| "ToBoolean (Obj m) = True"

definition or_else :: "jsval \<Rightarrow> jsval \<Rightarrow> jsval" where
  "or_else a b = (if ToBoolean a then a else b)"

fun typeof :: "jsval \<Rightarrow> string" where
  "typeof Undefined = ''undefined''"
| "typeof Null = ''object''"
| "typeof (Bool b) = ''boolean''"
| "typeof (Num n) = ''number''"
| "typeof (Str s) = ''string''"
| "typeof (Arr xs) = ''object''"
| "typeof (Obj m) = ''object''"

fun Array_isArray :: "jsval \<Rightarrow> bool" where
  "Array_isArray (Arr xs) = True"
| "Array_isArray v = False"

fun Number_isFinite :: "jsval \<Rightarrow> bool" where
  "Number_isFinite (Num (Fin q)) = True"
| "Number_isFinite v = False"

text \<open>
  Strict equality \<^verbatim>\<open>===\<close>. Arrays and objects are compared by identity; the two sides the
  handler compares come from two different documents (the blob and the request body), so
  they are never the same object.
\<close>

fun strict_eq :: "jsval \<Rightarrow> jsval \<Rightarrow> bool" where
  "strict_eq Undefined Undefined = True"
| "strict_eq Null Null = True"
| "strict_eq (Bool a) (Bool b) = (a = b)"
| "strict_eq (Num a) (Num b) = (a \<noteq> NaN \<and> a = b)"
| "strict_eq (Str a) (Str b) = (a = b)"
| "strict_eq a b = False"

subsection \<open>Conversions between numbers and strings\<close>

text \<open>
  Parsing a string as a number, and printing a number that is not an integer below
  \<open>2^53\<close> in magnitude (the shortest digits that read back as the same double), go through
  the double format; both are left to the engine and taken as parameters. An integer
  below \<open>2^53\<close> prints as its decimal digits.
\<close>

record engine =
  StringToNumber :: "string \<Rightarrow> jsnum"
  DoubleToString :: "rat \<Rightarrow> string"

definition digit_char :: "int \<Rightarrow> char" where
  "digit_char d = ''0123456789'' ! nat d"

function show_digits :: "int \<Rightarrow> string" where
  "show_digits n =
     (if n < 10 then [digit_char n] else show_digits (n div 10) @ [digit_char (n mod 10)])"
  by pat_completeness auto
termination
  by (relation "measure nat") auto

declare show_digits.simps [simp del]

definition show_int :: "int \<Rightarrow> string" where
  "show_int i = (if i < 0 then CHR ''-'' # show_digits (- i) else show_digits i)"

definition Number_toString :: "engine \<Rightarrow> jsnum \<Rightarrow> string" where
  "Number_toString eng n =
     (case n of
        NaN \<Rightarrow> ''NaN''
      | PosInf \<Rightarrow> ''Infinity''
      | NegInf \<Rightarrow> ''-Infinity''
      | Fin q \<Rightarrow>
          if of_int \<lfloor>q\<rfloor> = q \<and> \<bar>q\<bar> < 2 ^ 53 then show_int \<lfloor>q\<rfloor>
          else DoubleToString eng q)"

fun join_comma :: "string list \<Rightarrow> string" where
  "join_comma [] = []"
| "join_comma [s] = s"
| "join_comma (s # t # ts) = s @ '','' @ join_comma (t # ts)"

text \<open>
  An exception is the message of the error thrown. \<open>and_then\<close> runs the next step on a
  result and passes an exception on; \<open>collect\<close> takes the results of a list of steps run
  from the left, up to the first that throws.
\<close>

datatype exn = Thrown string

definition and_then :: "exn + 'a \<Rightarrow> ('a \<Rightarrow> exn + 'b) \<Rightarrow> exn + 'b" where
  "and_then r f = (case r of Inl err \<Rightarrow> Inl err | Inr x \<Rightarrow> f x)"

fun collect :: "(exn + 'a) list \<Rightarrow> exn + 'a list" where
  "collect [] = Inr []"
| "collect (r # rs) =
     (case r of
        Inl err \<Rightarrow> Inl err
      | Inr x \<Rightarrow> (case collect rs of Inl err \<Rightarrow> Inl err | Inr xs \<Rightarrow> Inr (x # xs)))"

text \<open>
  \<^verbatim>\<open>String(v)\<close>. An object is converted by its \<^verbatim>\<open>toString\<close> method. A parsed JSON object
  inherits the one that answers \<^verbatim>\<open>[object Object]\<close>, unless it has a key \<^verbatim>\<open>toString\<close> of its
  own: that value is never a function, \<^verbatim>\<open>valueOf\<close> gives back the object, and the
  conversion throws a TypeError. An array prints its elements joined by commas, null and
  undefined elements as the empty string, the others converted in turn, so it throws
  when one of them does.
\<close>

primrec String_of :: "engine \<Rightarrow> jsval \<Rightarrow> exn + string" where
  "String_of eng Undefined = Inr ''undefined''"
| "String_of eng Null = Inr ''null''"
| "String_of eng (Bool b) = Inr (if b then ''true'' else ''false'')"
| "String_of eng (Num n) = Inr (Number_toString eng n)"
| "String_of eng (Str s) = Inr s"
| "String_of eng (Arr xs) =
     (case collect (map (\<lambda>x. if x = Null \<or> x = Undefined then Inr [] else String_of eng x) xs) of
        Inl err \<Rightarrow> Inl err
      | Inr ss \<Rightarrow> Inr (join_comma ss))"
| "String_of eng (Obj m) =
     (if fmlookup m ''toString'' = None then Inr ''[object Object]''
      else Inl (Thrown ''Cannot convert object to primitive value''))"

text \<open>
  \<^verbatim>\<open>Number(v)\<close>. An array or object is first converted to a primitive: \<^verbatim>\<open>valueOf\<close> gives
  back the object itself, so the primitive is the string that \<^verbatim>\<open>toString\<close> gives, or the
  conversion throws as above.
\<close>

definition Number_of :: "engine \<Rightarrow> jsval \<Rightarrow> exn + jsnum" where
  "Number_of eng v =
     (case v of
        Undefined \<Rightarrow> Inr NaN
      | Null \<Rightarrow> Inr (Fin 0)
      | Bool b \<Rightarrow> Inr (Fin (if b then 1 else 0))
      | Num n \<Rightarrow> Inr n
      | Str s \<Rightarrow> Inr (StringToNumber eng s)
      | _ \<Rightarrow> and_then (String_of eng v) (\<lambda>s. Inr (StringToNumber eng s)))"

text \<open>
  The values on which neither conversion throws: everything but an object with a key
  \<^verbatim>\<open>toString\<close> and an array that holds, at any depth, such an object.
\<close>

primrec convertible :: "jsval \<Rightarrow> bool" where
  "convertible Undefined = True"
| "convertible Null = True"
| "convertible (Bool b) = True"
| "convertible (Num n) = True"
| "convertible (Str s) = True"
| "convertible (Arr xs) = list_all (\<lambda>b. b) (map convertible xs)"
| "convertible (Obj m) = (fmlookup m ''toString'' = None)"

subsection \<open>Properties and spread\<close>

text \<open>
  \<open>get v k\<close> is the property read \<^verbatim>\<open>v.k\<close> on a value that is neither null nor undefined,
  for the names the handler reads (\<^verbatim>\<open>id\<close>, \<^verbatim>\<open>name\<close>, \<^verbatim>\<open>updates\<close>, ...): none of them is
  an index, \<^verbatim>\<open>length\<close> or a prototype member, so only an object can hold one.
  \<open>member\<close> is the same read on any value: on null and undefined it throws.
\<close>

definition get :: "jsval \<Rightarrow> string \<Rightarrow> jsval" where
  "get v k =
     (case v of
        Obj m \<Rightarrow> (case fmlookup m k of Some x \<Rightarrow> x | None \<Rightarrow> Undefined)
      | _ \<Rightarrow> Undefined)"

definition member :: "jsval \<Rightarrow> string \<Rightarrow> exn + jsval" where
  "member v k =
     (if v = Null \<or> v = Undefined
      then Inl (Thrown (''Cannot read properties of '' @ (if v = Null then ''null'' else ''undefined'')
                         @ '' (reading '' @ [CHR 0x27] @ k @ [CHR 0x27] @ '')''))
      else Inr (get v k))"

text \<open>
  The own enumerable properties that \<^verbatim>\<open>{...v}\<close> copies: an object's properties, an
  array's elements under their indices, a string's characters under theirs, nothing for
  the other primitives, null and undefined.
\<close>

definition indexed :: "'a list \<Rightarrow> (string, 'a) fmap" where
  "indexed xs = fmap_of_list (zip (map (\<lambda>i. show_int (int i)) [0..<length xs]) xs)"

definition own_properties :: "jsval \<Rightarrow> (string, jsval) fmap" where
  "own_properties v =
     (case v of
        Obj m \<Rightarrow> m
      | Arr xs \<Rightarrow> indexed xs
      | Str s \<Rightarrow> indexed (map (\<lambda>c. Str [c]) s)
      | _ \<Rightarrow> fmempty)"

definition spread :: "jsval \<Rightarrow> jsval \<Rightarrow> jsval" where
  "spread a b = Obj (own_properties a ++\<^sub>f own_properties b)"

subsection \<open>Array methods with a callback that may throw\<close>

fun findIndex :: "('a \<Rightarrow> exn + bool) \<Rightarrow> 'a list \<Rightarrow> exn + nat option" where
  "findIndex f [] = Inr None"
| "findIndex f (x # xs) =
     (case f x of
        Inl err \<Rightarrow> Inl err
      | Inr True \<Rightarrow> Inr (Some 0)
      | Inr False \<Rightarrow>
          (case findIndex f xs of
             Inl err \<Rightarrow> Inl err
           | Inr None \<Rightarrow> Inr None
           | Inr (Some i) \<Rightarrow> Inr (Some (Suc i))))"

fun filter_js :: "('a \<Rightarrow> exn + bool) \<Rightarrow> 'a list \<Rightarrow> exn + 'a list" where
  "filter_js f [] = Inr []"
| "filter_js f (x # xs) =
     (case f x of
        Inl err \<Rightarrow> Inl err
      | Inr keep \<Rightarrow>
          (case filter_js f xs of
             Inl err \<Rightarrow> Inl err
           | Inr ys \<Rightarrow> Inr (if keep then x # ys else ys)))"

section \<open>The Blob Store\<close>

text \<open>
  The store is the external collaborator behind \<^verbatim>\<open>list\<close>, \<^verbatim>\<open>fetch\<close> and \<^verbatim>\<open>put\<close>. Its state is
  what it holds under each pathname; a body is either a JSON document or text that
  \<^verbatim>\<open>res.json()\<close> cannot parse. Each of the three calls may fail: the flags say which do,
  \<open>fetch_ok\<close> is the \<^verbatim>\<open>ok\<close> flag of the fetch response. \<open>written\<close> logs every completed
  \<^verbatim>\<open>put\<close>, latest first, so that a write that stores equal content is still visible.
  \<open>now\<close> is the clock that \<^verbatim>\<open>Date.now()\<close> reads.
\<close>

datatype stored = Unparsable | Document json

record env =
  objects :: "(string, stored) fmap"
  list_fails :: bool
  fetch_fails :: bool
  fetch_ok :: bool
  put_fails :: "string option"
  written :: "json list"
  now :: int

definition BLOB_NAME :: string where
  "BLOB_NAME = ''products.json''"

text \<open>
  The body of the \<^verbatim>\<open>try\<close> in \<^verbatim>\<open>readProductsFromBlob\<close>: \<^verbatim>\<open>list\<close> with the prefix, the entry
  whose pathname is exactly the name, \<^verbatim>\<open>fetch\<close> of its url, \<^verbatim>\<open>res.json()\<close>. The result is
  the parsed array, as the documents of its elements.
\<close>

definition read_attempt :: "env \<Rightarrow> exn + json list" where
  "read_attempt e =
     (if list_fails e then Inl (Thrown ''list failed'')
      else
        let blobs = ffilter (prefix BLOB_NAME) (fmdom (objects e)) in
        if BLOB_NAME |\<notin>| blobs then Inr []
        else if fetch_fails e then Inl (Thrown ''fetch failed'')
        else if \<not> fetch_ok e then Inr []
        else
          (case fmlookup (objects e) BLOB_NAME of
             None \<Rightarrow> Inr []
           | Some Unparsable \<Rightarrow> Inl (Thrown ''Unexpected token'')
           | Some (Document d) \<Rightarrow> Inr (case d of JArray xs \<Rightarrow> xs | _ \<Rightarrow> [])))"

definition readProductsFromBlob :: "env \<Rightarrow> json list" where
  "readProductsFromBlob e = (case read_attempt e of Inl err \<Rightarrow> [] | Inr data \<Rightarrow> data)"

text \<open>
  \<^verbatim>\<open>writeProductsToBlob\<close>: serialise, then \<^verbatim>\<open>put\<close> under the fixed name (no random suffix,
  so the object is replaced). A rejected \<^verbatim>\<open>put\<close> leaves the store as it was and throws.
\<close>

definition writeProductsToBlob :: "env \<Rightarrow> jsval list \<Rightarrow> exn + env" where
  "writeProductsToBlob e products =
     (case JSON_stringify (Arr products) of
        None \<Rightarrow> Inl (Thrown ''body is required'')
      | Some doc \<Rightarrow>
          (case put_fails e of
             Some message \<Rightarrow> Inl (Thrown message)
           | None \<Rightarrow>
               Inr (e\<lparr>objects := fmupd BLOB_NAME (Document doc) (objects e),
                       written := doc # written e\<rparr>)))"

section \<open>The request handler\<close>

text \<open>
  A request is its method and its body as the platform hands it over in \<^verbatim>\<open>req.body\<close>:
  absent, or the JSON document that was sent (a body that was not sent as JSON arrives as
  a string). A response is its headers, its status and the JSON that \<^verbatim>\<open>res.json\<close> sends.
\<close>

record request =
  req_method :: string
  req_body :: "json option"

record response =
  headers :: "(string \<times> string) list"
  status :: nat
  payload :: "json option"

definition cors :: "(string \<times> string) list" where
  "cors =
     [(''Access-Control-Allow-Origin'', ''*''),
      (''Access-Control-Allow-Methods'', ''GET,POST,PUT,DELETE,OPTIONS''),
      (''Access-Control-Allow-Headers'', ''Content-Type'')]"

text \<open>\<^verbatim>\<open>res.status(n).end()\<close> and \<^verbatim>\<open>res.status(n).json(v)\<close>.\<close>

definition respond_end :: "nat \<Rightarrow> response" where
  "respond_end n = \<lparr>headers = cors, status = n, payload = None\<rparr>"

definition respond_json :: "nat \<Rightarrow> jsval \<Rightarrow> response" where
  "respond_json n v = \<lparr>headers = cors, status = n, payload = JSON_stringify v\<rparr>"

definition error_body :: "string \<Rightarrow> jsval" where
  "error_body message = Obj (fmap_of_list [(''error'', Str message)])"

text \<open>\<^verbatim>\<open>req.body || {}\<close>; an absent body is \<^verbatim>\<open>undefined\<close>.\<close>

definition body_or_empty :: "request \<Rightarrow> jsval" where
  "body_or_empty req =
     or_else (case req_body req of None \<Rightarrow> Undefined | Some d \<Rightarrow> JSON_parse d) (Obj fmempty)"

text \<open>
  The object literal of the POST branch, its fields evaluated in the order written; a
  conversion that throws ends it. \<^verbatim>\<open>Date.now()\<close> is an integer of at most sixteen digits,
  so its \<^verbatim>\<open>toString()\<close> is its decimal numeral.
\<close>

definition newProduct :: "engine \<Rightarrow> int \<Rightarrow> jsval \<Rightarrow> exn + jsval" where
  "newProduct eng t body =
     and_then (Number_of eng (get body ''price'')) (\<lambda>price.
     and_then (if ToBoolean (get body ''offerPrice'')
               then and_then (Number_of eng (get body ''offerPrice'')) (\<lambda>n. Inr (Num n))
               else Inr Undefined) (\<lambda>offerPrice.
     and_then (String_of eng (get body ''category'')) (\<lambda>category.
     and_then (String_of eng (or_else (get body ''description'') (Str []))) (\<lambda>description.
     and_then (if Number_isFinite (get body ''stock'')
               then and_then (Number_of eng (get body ''stock'')) (\<lambda>n. Inr (Num n))
               else Inr (Num (Fin 0))) (\<lambda>stock.
     Inr (Obj (fmap_of_list
       [(''id'', Str (show_int t)),
        (''name'', get body ''name''),
        (''price'', Num price),
        (''offerPrice'', offerPrice),
        (''images'',
           if Array_isArray (get body ''images'') then get body ''images'' else Arr []),
        (''category'', Str category),
        (''description'', Str description),
        (''stock'', stock)])))))))"

definition post_branch :: "engine \<Rightarrow> env \<Rightarrow> request \<Rightarrow> jsval list \<Rightarrow> exn + response \<times> env" where
  "post_branch eng e req products =
     (let body = body_or_empty req in
      if \<not> ToBoolean (get body ''name'') \<or> \<not> ToBoolean (get body ''price'')
         \<or> \<not> ToBoolean (get body ''category'')
      then Inr (respond_json 400 (error_body ''Missing required fields''), e)
      else
        (case newProduct eng (now e) body of
           Inl err \<Rightarrow> Inl err
         | Inr created \<Rightarrow>
             let next = products @ [created]
             in case writeProductsToBlob e next of
                  Inl err \<Rightarrow> Inl err
                | Inr e' \<Rightarrow> Inr (respond_json 201 created, e')))"

definition id_is :: "jsval \<Rightarrow> jsval \<Rightarrow> exn + bool" where
  "id_is ident p = (case member p ''id'' of Inl err \<Rightarrow> Inl err | Inr v \<Rightarrow> Inr (strict_eq v ident))"

definition id_is_not :: "jsval \<Rightarrow> jsval \<Rightarrow> exn + bool" where
  "id_is_not ident p =
     (case member p ''id'' of Inl err \<Rightarrow> Inl err | Inr v \<Rightarrow> Inr (\<not> strict_eq v ident))"

definition put_branch :: "env \<Rightarrow> request \<Rightarrow> jsval list \<Rightarrow> exn + response \<times> env" where
  "put_branch e req products =
     (let body = body_or_empty req;
          ident = get body ''id'';
          updates = get body ''updates''
      in
      if \<not> ToBoolean ident \<or> typeof updates \<noteq> ''object''
      then Inr (respond_json 400 (error_body ''id and updates are required''), e)
      else
        (case findIndex (id_is ident) products of
           Inl err \<Rightarrow> Inl err
         | Inr None \<Rightarrow> Inr (respond_json 404 (error_body ''Not found''), e)
         | Inr (Some idx) \<Rightarrow>
             let updated = spread (products ! idx) updates;
                 next = products[idx := updated]
             in case writeProductsToBlob e next of
                  Inl err \<Rightarrow> Inl err
                | Inr e' \<Rightarrow> Inr (respond_json 200 updated, e')))"

definition delete_branch :: "env \<Rightarrow> request \<Rightarrow> jsval list \<Rightarrow> exn + response \<times> env" where
  "delete_branch e req products =
     (let body = body_or_empty req;
          ident = get body ''id''
      in
      if \<not> ToBoolean ident
      then Inr (respond_json 400 (error_body ''id is required''), e)
      else
        (case filter_js (id_is_not ident) products of
           Inl err \<Rightarrow> Inl err
         | Inr next \<Rightarrow>
             (case writeProductsToBlob e next of
                Inl err \<Rightarrow> Inl err
              | Inr e' \<Rightarrow> Inr (respond_json 200 (Obj (fmap_of_list [(''ok'', Bool True)])), e'))))"

text \<open>The body of the handler's \<^verbatim>\<open>try\<close>, after the OPTIONS shortcut.\<close>

definition dispatch :: "engine \<Rightarrow> env \<Rightarrow> request \<Rightarrow> exn + response \<times> env" where
  "dispatch eng e req =
     (if req_method req = ''GET''
      then Inr (respond_json 200 (Arr (map JSON_parse (readProductsFromBlob e))), e)
      else
        let products = map JSON_parse (readProductsFromBlob e) in
        if req_method req = ''POST'' then post_branch eng e req products
        else if req_method req = ''PUT'' then put_branch e req products
        else if req_method req = ''DELETE'' then delete_branch e req products
        else Inr (respond_json 405 (error_body ''Method Not Allowed''), e))"

definition handler :: "engine \<Rightarrow> env \<Rightarrow> request \<Rightarrow> response \<times> env" where
  "handler eng e req =
     (if req_method req = ''OPTIONS'' then (respond_end 200, e)
      else
        (case dispatch eng e req of
           Inr result \<Rightarrow> result
         | Inl (Thrown message) \<Rightarrow>
             (respond_json 500
                (error_body (if message \<noteq> [] then message else ''Internal Error'')), e)))"

text \<open>
  The catalog of the data model is a sequence of product records. \<open>records_only\<close> says
  that every element of a snapshot is an object, \<open>stored_records\<close> that the document under
  the blob name, when it is an array, is such a snapshot. Nothing in the code checks it
  on reading: \<^verbatim>\<open>Array.isArray\<close> is the only test.
\<close>

definition records_only :: "json list \<Rightarrow> bool" where
  "records_only xs \<longleftrightarrow> (\<forall>p\<in>set xs. \<exists>m. p = JObject m)"

definition stored_records :: "env \<Rightarrow> bool" where
  "stored_records e \<longleftrightarrow>
     (case fmlookup (objects e) BLOB_NAME of
        Some (Document (JArray xs)) \<Rightarrow> records_only xs
      | _ \<Rightarrow> True)"

section \<open>The client's product state\<close>

text \<open>
  \<^verbatim>\<open>ProductContext.tsx\<close> is TypeScript: its functions are typed over \<^verbatim>\<open>Product\<close>, so the
  client model is typed too. A character stands for a UTF-16 code unit below 256
  (Latin-1), which is what \<open>char\<close> can hold.
\<close>

text \<open>
  Modelled from the spec: the \<^verbatim>\<open>Product\<close> interface, which \<^verbatim>\<open>ProductContext.tsx\<close> imports
  from \<^verbatim>\<open>CartContext.tsx\<close> (not part of the sources at hand). The fields are those of the
  spec's data model and of \<^verbatim>\<open>initialProducts\<close>; \<^verbatim>\<open>offerPrice\<close> is optional. The field
  \<^verbatim>\<open>id\<close> is called \<open>pid\<close> here.
\<close>

record Product =
  pid :: string
  name :: string
  price :: jsnum
  offerPrice :: "jsnum option"
  images :: "string list"
  category :: string
  description :: string
  stock :: jsnum

text \<open>
  \<^verbatim>\<open>Partial<Product>\<close>: each field may be left out (\<open>None\<close>). A field that is present
  carries a value of the field's type; for the optional \<^verbatim>\<open>offerPrice\<close> that value may
  itself be \<^verbatim>\<open>undefined\<close>.
\<close>

record Partial_Product =
  new_pid :: "string option"
  new_name :: "string option"
  new_price :: "jsnum option"
  new_offerPrice :: "jsnum option option"
  new_images :: "string list option"
  new_category :: "string option"
  new_description :: "string option"
  new_stock :: "jsnum option"

definition initialProducts :: "Product list" where
  "initialProducts =
     [\<lparr>pid = ''1'', name = ''Silver Antique Set'', price = Fin 2899, offerPrice = Some (Fin 2299),
       images = [''/assets/silver-antique-set1.jpg'', ''/assets/silver-antique-set2.jpg'',
                 ''/assets/silver-antique-set3.jpg''],
       category = ''necklaces'',
       description = ''Exquisite silver eternity featuring brilliant-cut jewels'',
       stock = Fin 5\<rparr>,
      \<lparr>pid = ''2'', name = ''Stone Necklace'', price = Fin 799, offerPrice = None,
       images = [''/assets/stone-neck-blue.jpg'', ''/assets/stone-neck-black.jpg'',
                 ''/assets/stone-neck-blue.jpg''],
       category = ''necklaces'',
       description = ''Classic blue necklace with cute Stones'',
       stock = Fin 15\<rparr>,
      \<lparr>pid = ''3'', name = ''Korean Stud'', price = Fin 3299, offerPrice = Some (Fin 2799),
       images = [''/assets/korean-stud1.jpg'', ''/assets/korean-stud2.jpg'',
                 ''/assets/korean-stud3.jpg''],
       category = ''earrings'',
       description = ''Art deco inspired ruby ring with diamond accents'',
       stock = Fin 3\<rparr>]"

text \<open>The object spread \<^verbatim>\<open>{ ...p, ...updates }\<close> on the typed records.\<close>

definition or_keep :: "'a option \<Rightarrow> 'a \<Rightarrow> 'a" where
  "or_keep new old = (case new of Some v \<Rightarrow> v | None \<Rightarrow> old)"

definition merge :: "Product \<Rightarrow> Partial_Product \<Rightarrow> Product" where
  "merge p updates =
     \<lparr>pid = or_keep (new_pid updates) (pid p),
      name = or_keep (new_name updates) (name p),
      price = or_keep (new_price updates) (price p),
      offerPrice = or_keep (new_offerPrice updates) (offerPrice p),
      images = or_keep (new_images updates) (images p),
      category = or_keep (new_category updates) (category p),
      description = or_keep (new_description updates) (description p),
      stock = or_keep (new_stock updates) (stock p)\<rparr>"

text \<open>
  \<^verbatim>\<open>updateProduct\<close> changes the local state by
  \<^verbatim>\<open>setProducts(prev => prev.map(p => (p.id === id ? { ...p, ...updates } : p)))\<close>; the PUT it
  then sends does not touch the local state, whatever its outcome.
\<close>

definition updateProduct :: "Product list \<Rightarrow> string \<Rightarrow> Partial_Product \<Rightarrow> Product list" where
  "updateProduct prev ident updates = map (\<lambda>p. if pid p = ident then merge p updates else p) prev"

text \<open>
  \<^verbatim>\<open>toLowerCase\<close> on Latin-1: the capitals A to Z and \<open>0xC0\<close> to \<open>0xDE\<close> (but not the
  multiplication sign \<open>0xD7\<close>) move up by 32; every other character stays.
\<close>

definition lower_char :: "char \<Rightarrow> char" where
  "lower_char c =
     (let n = (of_char c :: nat) in
      if (65 \<le> n \<and> n \<le> 90) \<or> (192 \<le> n \<and> n \<le> 222 \<and> n \<noteq> 215)
      then char_of (n + 32) else c)"

definition toLowerCase :: "string \<Rightarrow> string" where
  "toLowerCase s = map lower_char s"

text \<open>\<^verbatim>\<open>s.includes(q)\<close>: try the search string at every position of \<open>s\<close>, from the left.\<close>

fun starts_with :: "string \<Rightarrow> string \<Rightarrow> bool" where
  "starts_with s [] = True"
| "starts_with [] (c # q) = False"
| "starts_with (a # s) (c # q) = (a = c \<and> starts_with s q)"

fun String_includes :: "string \<Rightarrow> string \<Rightarrow> bool" where
  "String_includes [] q = (q = [])"
| "String_includes (a # s) q = (starts_with (a # s) q \<or> String_includes s q)"

definition searchProducts :: "Product list \<Rightarrow> string \<Rightarrow> Product list" where
  "searchProducts products query =
     (let lower = toLowerCase query in
      filter (\<lambda>product.
          String_includes (toLowerCase (name product)) lower
        \<or> String_includes (toLowerCase (description product)) lower
        \<or> String_includes (toLowerCase (category product)) lower) products)"

text \<open>
  The text search as the spec words it, to compare \<open>searchProducts\<close> with: the lowercased
  query is a substring (a contiguous sublist) of the lowercased name, description or
  category.
\<close>

definition spec_matches :: "string \<Rightarrow> Product \<Rightarrow> bool" where
  "spec_matches query product \<longleftrightarrow>
     sublist (toLowerCase query) (toLowerCase (name product))
   \<or> sublist (toLowerCase query) (toLowerCase (description product))
   \<or> sublist (toLowerCase query) (toLowerCase (category product))"

section \<open>Concrete inputs\<close>

text \<open>
  Inputs on which the theorems below are exercised: an engine, a store holding a catalog
  of two records, an empty store, and requests with an object as body. The engine reads a
  string of decimal digits as the number it writes and the empty string as 0, as
  JavaScript does, and any other string as \<^verbatim>\<open>NaN\<close> (JavaScript accepts more numerals:
  signs, fractions, exponents, surrounding blanks; none occurs below, and no number but an
  integer below \<open>2^53\<close> is printed).
\<close>

fun decimal :: "string \<Rightarrow> int \<Rightarrow> jsnum" where
  "decimal [] acc = Fin (of_int acc)"
| "decimal (c # cs) acc =
     (let n = (of_char c :: nat) in
      if 48 \<le> n \<and> n \<le> 57 then decimal cs (10 * acc + int n - 48) else NaN)"

definition an_engine :: engine where
  "an_engine = \<lparr>StringToNumber = (\<lambda>s. decimal s 0), DoubleToString = (\<lambda>q. ''0.5'')\<rparr>"

definition ring :: json where
  "ring = JObject (fmap_of_list [(''id'', JString ''1''), (''name'', JString ''Ring''),
                                (''price'', JNumber 100)])"

definition stud :: json where
  "stud = JObject (fmap_of_list [(''id'', JString ''2''), (''name'', JString ''Stud''),
                                (''price'', JNumber 250)])"

definition a_store :: env where
  "a_store =
     \<lparr>objects = fmap_of_list [(''products.json'', Document (JArray [ring, stud]))],
      list_fails = False, fetch_fails = False, fetch_ok = True, put_fails = None,
      written = [], now = 1730000000000\<rparr>"

definition an_empty_store :: env where
  "an_empty_store =
     \<lparr>objects = fmempty, list_fails = False, fetch_fails = False, fetch_ok = True,
      put_fails = None, written = [], now = 1730000000000\<rparr>"

definition request_of :: "string \<Rightarrow> (string \<times> json) list \<Rightarrow> request" where
  "request_of m kvs = \<lparr>req_method = m, req_body = Some (JObject (fmap_of_list kvs))\<rparr>"

section \<open>Serialisation and parsing\<close>

lemma drop_undefined_lookup:
  "fmlookup (drop_undefined m) k = (case fmlookup m k of Some (Some v) \<Rightarrow> Some v | _ \<Rightarrow> None)"
  by (auto simp: drop_undefined_def split: option.splits)

lemma stringify_parse: "JSON_stringify (JSON_parse d) = Some d"
proof (induction d)
  case (JArray xs)
  then have "map null_if_undefined (map JSON_stringify (map JSON_parse xs)) = xs"
    by (induction xs) (simp_all add: null_if_undefined_def)
  then show ?case by simp
next
  case (JObject m)
  have "drop_undefined (fmmap JSON_stringify (fmmap JSON_parse m)) = m"
  proof (rule fmap_ext)
    fix k
    show "fmlookup (drop_undefined (fmmap JSON_stringify (fmmap JSON_parse m))) k = fmlookup m k"
    proof (cases "fmlookup m k")
      case None
      then show ?thesis by (simp add: drop_undefined_lookup)
    next
      case (Some v)
      then have "v \<in> fmran' m" by (rule fmran'I)
      then have "JSON_stringify (JSON_parse v) = Some v" by (rule JObject.IH)
      with Some show ?thesis by (simp add: drop_undefined_lookup)
    qed
  qed
  then show ?case by simp
qed simp_all

lemma stringify_Arr_parsed:
  "JSON_stringify (Arr (map JSON_parse xs)) = Some (JArray xs)"
  using stringify_parse [of "JArray xs"] by simp

lemma show_digits_nonempty: "show_digits n \<noteq> []"
  by (subst show_digits.simps) simp

lemma show_int_nonempty: "show_int t \<noteq> []"
  by (simp add: show_int_def show_digits_nonempty)

lemma null_if_undefined_parse [simp]: "null_if_undefined (JSON_stringify (JSON_parse d)) = d"
  by (simp add: stringify_parse null_if_undefined_def)

lemma serialise_parsed_id [simp]: "null_if_undefined \<circ> (JSON_stringify \<circ> JSON_parse) = id"
  by (rule ext) simp

lemma written_document [simp]:
  "map null_if_undefined (map JSON_stringify (map JSON_parse xs)) = xs"
  by simp

lemma write_ok:
  assumes "put_fails e = None"
  shows "writeProductsToBlob e products =
     Inr (e\<lparr>objects := fmupd BLOB_NAME (Document (JArray (map null_if_undefined (map JSON_stringify products)))) (objects e),
            written := JArray (map null_if_undefined (map JSON_stringify products)) # written e\<rparr>)"
  using assms by (simp add: writeProductsToBlob_def)

lemma read_after_write:
  assumes "fmlookup (objects e) BLOB_NAME = Some (Document (JArray xs))"
    and "\<not> list_fails e" and "\<not> fetch_fails e" and "fetch_ok e"
  shows "readProductsFromBlob e = xs"
  using assms by (simp add: readProductsFromBlob_def read_attempt_def Let_def fmdomI)

lemma get_handler:
  assumes "req_method req = ''GET''"
  shows "handler eng e req = (\<lparr>headers = cors, status = 200, payload = Some (JArray (readProductsFromBlob e))\<rparr>, e)"
  using assms by (simp add: handler_def dispatch_def respond_json_def stringify_Arr_parsed del: JSON_stringify.simps)

section \<open>Searching and filtering the snapshot\<close>

lemma findIndex_pure:
  assumes "\<forall>x\<in>set xs. f x = Inr (P x)"
  shows "(findIndex f xs = Inr None \<and> (\<forall>x\<in>set xs. \<not> P x))
       \<or> (\<exists>i<length xs. findIndex f xs = Inr (Some i) \<and> P (xs ! i) \<and> (\<forall>j<i. \<not> P (xs ! j)))"
  using assms
proof (induction xs)
  case Nil
  then show ?case by simp
next
  case (Cons x xs)
  show ?case
  proof (cases "P x")
    case True
    with Cons.prems show ?thesis by auto
  next
    case False
    from Cons have "(findIndex f xs = Inr None \<and> (\<forall>x\<in>set xs. \<not> P x))
       \<or> (\<exists>i<length xs. findIndex f xs = Inr (Some i) \<and> P (xs ! i) \<and> (\<forall>j<i. \<not> P (xs ! j)))"
      by simp
    then show ?thesis
    proof
      assume "findIndex f xs = Inr None \<and> (\<forall>x\<in>set xs. \<not> P x)"
      with False Cons.prems show ?thesis by simp
    next
      assume "\<exists>i<length xs. findIndex f xs = Inr (Some i) \<and> P (xs ! i) \<and> (\<forall>j<i. \<not> P (xs ! j))"
      then obtain i where i: "i < length xs" "findIndex f xs = Inr (Some i)" "P (xs ! i)"
        "\<forall>j<i. \<not> P (xs ! j)" by blast
      have "\<forall>j<Suc i. \<not> P ((x # xs) ! j)"
        using False i(4) by (simp add: nth_Cons split: nat.split)
      with i False Cons.prems have "Suc i < length (x # xs) \<and> findIndex f (x # xs) = Inr (Some (Suc i))
          \<and> P ((x # xs) ! Suc i) \<and> (\<forall>j<Suc i. \<not> P ((x # xs) ! j))"
        by simp
      then show ?thesis by blast
    qed
  qed
qed

lemma findIndex_Some:
  "findIndex f xs = Inr (Some i) \<Longrightarrow> i < length xs \<and> f (xs ! i) = Inr True"
proof (induction xs arbitrary: i)
  case Nil
  then show ?case by simp
next
  case (Cons x xs)
  then show ?case
    by (cases i) (auto split: sum.splits bool.splits option.splits)
qed

lemma filter_js_pure:
  "\<forall>x\<in>set xs. f x = Inr (P x) \<Longrightarrow> filter_js f xs = Inr (filter P xs)"
  by (induction xs) simp_all

lemma parse_not_Undefined [simp]: "JSON_parse d \<noteq> Undefined"
  by (cases d) simp_all

lemma parse_Null_iff [simp]: "JSON_parse d = Null \<longleftrightarrow> d = JNull"
  by (cases d) simp_all

lemma parse_inj: "JSON_parse a = JSON_parse b \<Longrightarrow> a = b"
  by (metis stringify_parse option.inject)

lemma id_is_parsed:
  "d \<noteq> JNull \<Longrightarrow> id_is ident (JSON_parse d) = Inr (strict_eq (get (JSON_parse d) ''id'') ident)"
  by (simp add: id_is_def member_def)

lemma id_is_not_parsed:
  "d \<noteq> JNull \<Longrightarrow> id_is_not ident (JSON_parse d) = Inr (\<not> strict_eq (get (JSON_parse d) ''id'') ident)"
  by (simp add: id_is_not_def member_def)

lemma strict_eq_imp_eq: "strict_eq a b \<Longrightarrow> a = b"
  by (induction a b rule: strict_eq.induct) simp_all

lemma map_of_map_values:
  "map_of (map (\<lambda>p. (fst p, f (snd p))) kvs) k = map_option f (map_of kvs k)"
  by (induction kvs) auto

lemma indexed_map: "indexed (map f xs) = fmmap f (indexed xs)"
proof (rule fmap_ext)
  fix k
  have "map_of (zip ks (map f ys)) k = map_option f (map_of (zip ks ys) k)" for ks :: "string list" and ys
    by (simp add: zip_map2 map_of_map_values case_prod_unfold)
  then show "fmlookup (indexed (map f xs)) k = fmlookup (fmmap f (indexed xs)) k"
    by (simp add: indexed_def fmlookup_of_list)
qed

lemma own_properties_parsed: "\<exists>m. own_properties (JSON_parse d) = fmmap JSON_parse m"
proof (cases d)
  case (JString s)
  have "indexed (map (\<lambda>c. Str [c]) s) = fmmap JSON_parse (indexed (map (\<lambda>c. JString [c]) s))"
    by (simp add: indexed_map [symmetric] comp_def)
  with JString show ?thesis by (auto simp: own_properties_def)
next
  case (JArray xs)
  then show ?thesis by (auto simp: own_properties_def indexed_map)
next
  case (JObject m)
  then show ?thesis by (auto simp: own_properties_def)
qed (auto simp: own_properties_def intro: exI [of _ fmempty])

lemma get_parsed: "get (JSON_parse d) k = Undefined \<or> (\<exists>u. get (JSON_parse d) k = JSON_parse u)"
  by (cases d) (auto simp: get_def split: option.splits)

lemma get_body: "get (body_or_empty req) k = Undefined \<or> (\<exists>u. get (body_or_empty req) k = JSON_parse u)"
  using get_parsed by (auto simp: body_or_empty_def or_else_def get_def split: option.splits)

lemma matching_record_is_object:
  assumes "strict_eq (get (JSON_parse d) ''id'') ident" and "ToBoolean ident"
  shows "\<exists>m0 i. d = JObject m0 \<and> fmlookup m0 ''id'' = Some i \<and> JSON_parse i = ident"
proof -
  from assms(1) have eq: "get (JSON_parse d) ''id'' = ident" by (rule strict_eq_imp_eq)
  with assms(2) have "get (JSON_parse d) ''id'' \<noteq> Undefined" by auto
  then show ?thesis
    using eq by (cases d) (auto simp: get_def split: option.splits)
qed

lemma put_located:
  assumes "req_method req = ''PUT''"
    and "ToBoolean (get (body_or_empty req) ''id'')"
    and "typeof (get (body_or_empty req) ''updates'') = ''object''"
    and "findIndex (id_is (get (body_or_empty req) ''id'')) (map JSON_parse (readProductsFromBlob e))
           = Inr (Some idx)"
    and "put_fails e = None"
  shows "\<exists>m m0 i. idx < length (readProductsFromBlob e)
    \<and> readProductsFromBlob e ! idx = JObject m0
    \<and> fmlookup m0 ''id'' = Some i \<and> JSON_parse i = get (body_or_empty req) ''id''
    \<and> fmmap JSON_parse m = fmmap JSON_parse m0 ++\<^sub>f own_properties (get (body_or_empty req) ''updates'')
    \<and> handler eng e req
        = (\<lparr>headers = cors, status = 200, payload = Some (JObject m)\<rparr>,
           e\<lparr>objects := fmupd BLOB_NAME
                 (Document (JArray ((readProductsFromBlob e)[idx := JObject m]))) (objects e),
             written := JArray ((readProductsFromBlob e)[idx := JObject m]) # written e\<rparr>)"
proof -
  define ident where "ident = get (body_or_empty req) ''id''"
  define updates where "updates = get (body_or_empty req) ''updates''"
  define prior where "prior = readProductsFromBlob e"
  note found = assms(4) [folded ident_def prior_def]
  from findIndex_Some [OF found]
  have idx: "idx < length prior" and hit: "id_is ident (JSON_parse (prior ! idx)) = Inr True"
    by auto
  from hit have "strict_eq (get (JSON_parse (prior ! idx)) ''id'') ident"
    by (auto simp: id_is_def member_def split: if_splits)
  from matching_record_is_object [OF this] assms(2)
  obtain m0 i where m0: "prior ! idx = JObject m0" "fmlookup m0 ''id'' = Some i" "JSON_parse i = ident"
    by (auto simp: ident_def)
  from assms(3) have "updates \<noteq> Undefined" by (auto simp: updates_def)
  then obtain u where u: "updates = JSON_parse u"
    using get_body [of req "''updates''"] by (auto simp: updates_def)
  obtain mu where mu: "own_properties (JSON_parse u) = fmmap JSON_parse mu"
    using own_properties_parsed by blast
  define m where "m = m0 ++\<^sub>f mu"
  have own0: "own_properties (Obj x) = x" for x
    by (simp add: own_properties_def)
  have merged: "spread (JSON_parse (prior ! idx)) updates = JSON_parse (JObject m)"
    by (simp add: spread_def m0 u mu m_def own0)
  have fields: "fmmap JSON_parse m = fmmap JSON_parse m0 ++\<^sub>f own_properties updates"
    by (simp add: m_def u mu)
  have next_eq: "(map JSON_parse prior)[idx := JSON_parse (JObject m)] = map JSON_parse (prior[idx := JObject m])"
    by (simp add: map_update del: JSON_parse.simps)
  have wr: "writeProductsToBlob e ((map JSON_parse prior)[idx := JSON_parse (JObject m)])
      = Inr (e\<lparr>objects := fmupd BLOB_NAME (Document (JArray (prior[idx := JObject m]))) (objects e),
               written := JArray (prior[idx := JObject m]) # written e\<rparr>)"
    unfolding next_eq using assms(5) by (simp add: write_ok del: JSON_stringify.simps)
  have "handler eng e req
        = (\<lparr>headers = cors, status = 200, payload = Some (JObject m)\<rparr>,
           e\<lparr>objects := fmupd BLOB_NAME (Document (JArray (prior[idx := JObject m]))) (objects e),
             written := JArray (prior[idx := JObject m]) # written e\<rparr>)"
    using assms(1,2,3) found idx wr merged stringify_parse [of "JObject m"]
    by (simp add: handler_def dispatch_def put_branch_def Let_def respond_json_def
        ident_def [symmetric] updates_def [symmetric] prior_def [symmetric]
        del: JSON_stringify.simps JSON_parse.simps)
  with idx m0 fields show ?thesis
    unfolding prior_def ident_def updates_def by blast
qed

lemma put_succeeded:
  assumes "req_method req = ''PUT''" and "status (fst (handler eng e req)) = 200"
  shows "ToBoolean (get (body_or_empty req) ''id'')
    \<and> typeof (get (body_or_empty req) ''updates'') = ''object''
    \<and> (\<exists>idx. findIndex (id_is (get (body_or_empty req) ''id''))
                 (map JSON_parse (readProductsFromBlob e)) = Inr (Some idx))
    \<and> put_fails e = None"
proof -
  have s: "status (respond_json n v) = n" for n v by (simp add: respond_json_def)
  show ?thesis
    using assms
    by (auto simp: handler_def dispatch_def put_branch_def Let_def s writeProductsToBlob_def
        split: if_splits sum.splits option.splits exn.splits)
qed

lemma prior_a_store: "readProductsFromBlob a_store = [ring, stud]"
  by (simp add: readProductsFromBlob_def read_attempt_def a_store_def BLOB_NAME_def)

section \<open>Conversions that throw\<close>

text \<open>
  \<^verbatim>\<open>String(v)\<close> and \<^verbatim>\<open>Number(v)\<close> return exactly on the convertible values, and what they
  throw otherwise is the one TypeError. The object literal of the POST branch is built
  exactly when the four values it converts are convertible.
\<close>

lemma collect_Inr_iff: "(\<exists>xs. collect rs = Inr xs) \<longleftrightarrow> (\<forall>r\<in>set rs. \<exists>x. r = Inr x)"
  by (induction rs) (auto split: sum.splits)

lemma collect_Inl: "collect rs = Inl err \<Longrightarrow> Inl err \<in> set rs"
  by (induction rs) (auto split: sum.splits)

lemma String_of_convertible: "(\<exists>s. String_of eng v = Inr s) \<longleftrightarrow> convertible v"
proof (induction v)
  case (Arr xs)
  let ?f = "\<lambda>x. if x = Null \<or> x = Undefined then Inr [] else String_of eng x"
  have elem: "(\<exists>s. ?f x = Inr s) \<longleftrightarrow> convertible x" if "x \<in> set xs" for x
    using Arr.IH [OF that] by auto
  have "(\<forall>r\<in>set (map ?f xs). \<exists>s. r = Inr s) \<longleftrightarrow> (\<forall>x\<in>set xs. \<exists>s. ?f x = Inr s)"
    unfolding set_map by blast
  also have "\<dots> \<longleftrightarrow> (\<forall>x\<in>set xs. convertible x)"
    using elem by blast
  finally have "(\<exists>ss. collect (map ?f xs) = Inr ss) \<longleftrightarrow> (\<forall>x\<in>set xs. convertible x)"
    by (simp only: collect_Inr_iff)
  then show ?case
    by (auto simp: list_all_iff split: sum.splits)
qed simp_all

lemma String_of_Inl:
  "String_of eng v = Inl err \<Longrightarrow> err = Thrown ''Cannot convert object to primitive value''"
proof (induction v)
  case (Arr xs)
  let ?f = "\<lambda>x. if x = Null \<or> x = Undefined then Inr [] else String_of eng x"
  from Arr.prems have "collect (map ?f xs) = Inl err"
    by (auto split: sum.splits)
  then have "Inl err \<in> set (map ?f xs)" by (rule collect_Inl)
  then obtain x where "x \<in> set xs" "String_of eng x = Inl err"
    by (auto split: if_splits)
  then show ?case by (rule Arr.IH)
qed (auto split: if_splits)

lemma Number_of_convertible: "(\<exists>n. Number_of eng v = Inr n) \<longleftrightarrow> convertible v"
proof (cases v)
  case (Arr xs)
  with String_of_convertible [of eng v] show ?thesis
    by (auto simp: Number_of_def and_then_def split: sum.splits)
next
  case (Obj m)
  then show ?thesis
    by (auto simp: Number_of_def and_then_def)
qed (simp_all add: Number_of_def)

lemma Number_of_Inl:
  "Number_of eng v = Inl err \<Longrightarrow> err = Thrown ''Cannot convert object to primitive value''"
  using String_of_Inl [of eng v err]
  by (cases v) (auto simp: Number_of_def and_then_def split: sum.splits if_splits)

lemma falsy_convertible: "\<not> ToBoolean v \<Longrightarrow> convertible v"
  by (cases v) simp_all

lemma or_else_convertible: "convertible (or_else v (Str [])) \<longleftrightarrow> convertible v"
  by (auto simp: or_else_def falsy_convertible)

lemma finite_Number_of: "Number_isFinite v \<Longrightarrow> Number_of eng v = Inr (case v of Num n \<Rightarrow> n)"
  by (induction v rule: Number_isFinite.induct) (simp_all add: Number_of_def)

lemma newProduct_Obj: "newProduct eng t body = Inr v \<Longrightarrow> \<exists>m. v = Obj m"
  by (auto simp: newProduct_def and_then_def split: sum.splits if_splits)

lemma newProduct_id:
  "newProduct eng t body = Inr (Obj m) \<Longrightarrow> fmlookup m ''id'' = Some (Str (show_int t))"
  by (auto simp: newProduct_def and_then_def split: sum.splits if_splits)

lemma newProduct_Inr_iff:
  "(\<exists>v. newProduct eng t body = Inr v) \<longleftrightarrow>
     convertible (get body ''price'') \<and> convertible (get body ''offerPrice'')
   \<and> convertible (get body ''category'') \<and> convertible (get body ''description'')"
proof -
  have price: "(\<exists>n. Number_of eng (get body ''price'') = Inr n) \<longleftrightarrow> convertible (get body ''price'')"
    by (rule Number_of_convertible)
  have offer: "(\<exists>x. (if ToBoolean (get body ''offerPrice'')
               then and_then (Number_of eng (get body ''offerPrice'')) (\<lambda>n. Inr (Num n))
               else Inr Undefined) = Inr x) \<longleftrightarrow> convertible (get body ''offerPrice'')"
    using Number_of_convertible [of eng "get body ''offerPrice''"]
    by (auto simp: and_then_def falsy_convertible split: sum.splits)
  have category: "(\<exists>s. String_of eng (get body ''category'') = Inr s)
      \<longleftrightarrow> convertible (get body ''category'')"
    by (rule String_of_convertible)
  have description: "(\<exists>s. String_of eng (or_else (get body ''description'') (Str [])) = Inr s)
      \<longleftrightarrow> convertible (get body ''description'')"
    by (simp add: String_of_convertible or_else_convertible)
  have stock: "\<exists>x. (if Number_isFinite (get body ''stock'')
               then and_then (Number_of eng (get body ''stock'')) (\<lambda>n. Inr (Num n))
               else Inr (Num (Fin 0))) = Inr x"
    by (simp add: finite_Number_of and_then_def)
  show ?thesis
    unfolding newProduct_def price [symmetric] offer [symmetric] category [symmetric]
      description [symmetric]
    using stock by (auto simp: and_then_def split: sum.splits)
qed

lemma newProduct_Inl:
  "newProduct eng t body = Inl err \<Longrightarrow> err = Thrown ''Cannot convert object to primitive value''"
  by (auto simp: newProduct_def and_then_def finite_Number_of split: sum.splits if_splits
      dest: Number_of_Inl String_of_Inl)

lemma post_conversion_throws:
  assumes "req_method req = ''POST''"
    and "ToBoolean (get (body_or_empty req) ''name'')"
    and "ToBoolean (get (body_or_empty req) ''price'')"
    and "ToBoolean (get (body_or_empty req) ''category'')"
    and "\<not> (convertible (get (body_or_empty req) ''price'')
          \<and> convertible (get (body_or_empty req) ''offerPrice'')
          \<and> convertible (get (body_or_empty req) ''category'')
          \<and> convertible (get (body_or_empty req) ''description''))"
  shows "handler eng e req
    = (respond_json 500 (error_body ''Cannot convert object to primitive value''), e)"
proof -
  from assms(5) newProduct_Inr_iff [of eng "now e" "body_or_empty req"]
  obtain err where "newProduct eng (now e) (body_or_empty req) = Inl err"
    by (cases "newProduct eng (now e) (body_or_empty req)") auto
  moreover from this have "err = Thrown ''Cannot convert object to primitive value''"
    by (rule newProduct_Inl)
  ultimately show ?thesis
    using assms(1-4) by (simp add: handler_def dispatch_def post_branch_def Let_def)
qed

section \<open>The stored catalog holds records\<close>

text \<open>
  The handler never stores anything but records: a POST appends an object, a PUT replaces
  a record by an object, a DELETE removes elements. So a store that starts without a blob,
  or with a catalog of records, holds a catalog of records after every request, and the
  snapshots the handler reads have no null element. A rejected \<^verbatim>\<open>put\<close> is the handler's
  500, with the store as it was.
\<close>

lemma status_respond_json [simp]: "status (respond_json n v) = n"
  by (simp add: respond_json_def)

lemma put_rejected:
  assumes "put_fails e = Some message"
  shows "writeProductsToBlob e products = Inl (Thrown message)"
  using assms by (simp add: writeProductsToBlob_def)

lemma post_write_rejected:
  assumes "req_method req = ''POST''"
    and "ToBoolean (get (body_or_empty req) ''name'')"
    and "ToBoolean (get (body_or_empty req) ''price'')"
    and "ToBoolean (get (body_or_empty req) ''category'')"
    and "newProduct eng (now e) (body_or_empty req) = Inr created"
    and "put_fails e = Some message"
  shows "handler eng e req
    = (respond_json 500 (error_body (if message \<noteq> [] then message else ''Internal Error'')), e)"
  using assms
  by (simp add: handler_def dispatch_def post_branch_def Let_def put_rejected
      del: JSON_stringify.simps)

lemma records_only_no_null: "records_only xs \<Longrightarrow> JNull \<notin> set xs"
  by (auto simp: records_only_def)

lemma handler_cases:
  "req_method req = ''OPTIONS'' \<or> req_method req = ''GET'' \<or> req_method req = ''POST''
   \<or> req_method req = ''PUT'' \<or> req_method req = ''DELETE''
   \<or> snd (handler eng e req) = e"
  by (auto simp: handler_def dispatch_def Let_def)

lemma write_cases:
  "writeProductsToBlob e products = Inl (Thrown (the (put_fails e)))
   \<or> (put_fails e = None \<and> writeProductsToBlob e products
        = Inr (e\<lparr>objects := fmupd BLOB_NAME
                  (Document (JArray (map null_if_undefined (map JSON_stringify products)))) (objects e),
                written := JArray (map null_if_undefined (map JSON_stringify products)) # written e\<rparr>))"
  by (cases "put_fails e") (simp_all add: writeProductsToBlob_def)

lemma handler_keeps_records:
  assumes "records_only (readProductsFromBlob e)"
    and "snd (handler eng e req) \<noteq> e"
  shows "\<exists>xs. records_only xs
    \<and> snd (handler eng e req)
        = e\<lparr>objects := fmupd BLOB_NAME (Document (JArray xs)) (objects e),
            written := JArray xs # written e\<rparr>"
proof -
  define prior where "prior = readProductsFromBlob e"
  have nonnull: "JNull \<notin> set prior"
    using assms(1) by (simp add: prior_def records_only_no_null)
  from handler_cases [of req eng e] assms(2)
  consider (post) "req_method req = ''POST''" | (put) "req_method req = ''PUT''"
    | (delete) "req_method req = ''DELETE''"
    | (other) "req_method req = ''OPTIONS'' \<or> req_method req = ''GET''"
    by blast
  then show ?thesis
  proof cases
    case other
    with assms(2) show ?thesis
      by (auto simp: handler_def dispatch_def)
  next
    case post
    show ?thesis
    proof (cases "newProduct eng (now e) (body_or_empty req)")
      case (Inl err)
      with assms(2) post show ?thesis
        by (auto simp: handler_def dispatch_def post_branch_def Let_def
            split: if_splits exn.splits)
    next
      case (Inr created)
      then obtain m where m: "created = Obj m"
        using newProduct_Obj by blast
      define fields where "fields = drop_undefined (fmmap JSON_stringify m)"
      have fields: "JSON_stringify created = Some (JObject fields)"
        by (simp add: m fields_def)
      have ser: "map null_if_undefined (map JSON_stringify (map JSON_parse prior @ [created]))
          = prior @ [JObject fields]"
        by (simp add: fields null_if_undefined_def del: JSON_stringify.simps)
      have rec: "records_only (prior @ [JObject fields])"
        using assms(1) by (auto simp: records_only_def prior_def)
      from write_cases [of e "map JSON_parse prior @ [created]"] assms(2) post Inr
      have "snd (handler eng e req)
          = e\<lparr>objects := fmupd BLOB_NAME (Document (JArray (prior @ [JObject fields]))) (objects e),
              written := JArray (prior @ [JObject fields]) # written e\<rparr>"
        unfolding ser
        by (auto simp: handler_def dispatch_def post_branch_def Let_def
            prior_def [symmetric]
            split: if_splits simp del: JSON_stringify.simps)
      with rec show ?thesis by blast
    qed
  next
    case put
    have changed: "status (fst (handler eng e req)) = 200"
      using assms(2) put
      by (auto simp: handler_def dispatch_def put_branch_def Let_def
          split: if_splits sum.splits option.splits exn.splits)
    from put_succeeded [OF put changed] obtain idx where ok:
      "ToBoolean (get (body_or_empty req) ''id'')"
      "typeof (get (body_or_empty req) ''updates'') = ''object''"
      "findIndex (id_is (get (body_or_empty req) ''id''))
          (map JSON_parse (readProductsFromBlob e)) = Inr (Some idx)"
      "put_fails e = None"
      by blast
    from put_located [OF put ok, of eng] obtain m where m:
      "snd (handler eng e req)
        = e\<lparr>objects := fmupd BLOB_NAME (Document (JArray (prior[idx := JObject m]))) (objects e),
            written := JArray (prior[idx := JObject m]) # written e\<rparr>"
      by (auto simp: prior_def)
    have "records_only (prior[idx := JObject m])"
      using assms(1) set_update_subset_insert [of prior idx "JObject m"]
      by (auto simp: records_only_def prior_def)
    with m show ?thesis by blast
  next
    case delete
    define ident where "ident = get (body_or_empty req) ''id''"
    define kept where "kept = filter (\<lambda>p. \<not> strict_eq (get (JSON_parse p) ''id'') ident) prior"
    have "\<forall>x\<in>set (map JSON_parse prior). id_is_not ident x = Inr (\<not> strict_eq (get x ''id'') ident)"
    proof
      fix x assume "x \<in> set (map JSON_parse prior)"
      then obtain d where d: "d \<in> set prior" "x = JSON_parse d" by auto
      with nonnull have "d \<noteq> JNull" by auto
      with d show "id_is_not ident x = Inr (\<not> strict_eq (get x ''id'') ident)"
        by (simp add: id_is_not_parsed)
    qed
    then have "filter_js (id_is_not ident) (map JSON_parse prior)
        = Inr (filter (\<lambda>x. \<not> strict_eq (get x ''id'') ident) (map JSON_parse prior))"
      by (rule filter_js_pure)
    then have flt: "filter_js (id_is_not ident) (map JSON_parse prior) = Inr (map JSON_parse kept)"
      by (simp add: kept_def filter_map comp_def)
    have rec: "records_only kept"
      using assms(1) by (auto simp: records_only_def kept_def prior_def)
    from write_cases [of e "map JSON_parse kept"] assms(2) delete flt
    have "snd (handler eng e req)
        = e\<lparr>objects := fmupd BLOB_NAME (Document (JArray kept)) (objects e),
            written := JArray kept # written e\<rparr>"
      by (auto simp: handler_def dispatch_def delete_branch_def Let_def
          prior_def [symmetric] ident_def [symmetric]
          split: if_splits simp del: JSON_stringify.simps)
    with rec show ?thesis by blast
  qed
qed

lemma read_is_stored_or_empty:
  "readProductsFromBlob e = []
   \<or> fmlookup (objects e) BLOB_NAME = Some (Document (JArray (readProductsFromBlob e)))"
  by (auto simp: readProductsFromBlob_def read_attempt_def Let_def
      split: option.splits stored.splits json.splits)

lemma stored_records_read: "stored_records e \<Longrightarrow> records_only (readProductsFromBlob e)"
  using read_is_stored_or_empty [of e]
  by (auto simp: stored_records_def records_only_def)

lemma handler_keeps_stored_records:
  assumes "stored_records e"
  shows "stored_records (snd (handler eng e req))"
proof (cases "snd (handler eng e req) = e")
  case True
  with assms show ?thesis by simp
next
  case False
  from handler_keeps_records [OF stored_records_read [OF assms] False]
  show ?thesis by (auto simp: stored_records_def)
qed

section \<open>Creating a product\<close>

text \<open>
  Claim C1. A POST whose body has truthy \<^verbatim>\<open>name\<close>, \<^verbatim>\<open>price\<close> and \<^verbatim>\<open>category\<close>, and whose
  \<^verbatim>\<open>price\<close>, \<^verbatim>\<open>offerPrice\<close>, \<^verbatim>\<open>category\<close> and \<^verbatim>\<open>description\<close> are convertible (none is an
  object with a key \<^verbatim>\<open>toString\<close>, or an array holding one), against a store that accepts the
  write, answers 201 with the created record. The record's id is the decimal numeral of
  the clock, hence a non-empty string. The document written under the blob name is the
  snapshot that was read with exactly that record appended, and a later GET that reaches
  the store returns that array.
\<close>

theorem post_creates_and_appends:
  assumes "req_method req = ''POST''"
    and "ToBoolean (get (body_or_empty req) ''name'')"
    and "ToBoolean (get (body_or_empty req) ''price'')"
    and "ToBoolean (get (body_or_empty req) ''category'')"
    and "convertible (get (body_or_empty req) ''price'')"
    and "convertible (get (body_or_empty req) ''offerPrice'')"
    and "convertible (get (body_or_empty req) ''category'')"
    and "convertible (get (body_or_empty req) ''description'')"
    and "put_fails e = None"
  shows "\<exists>created fields e'.
      handler eng e req = (\<lparr>headers = cors, status = 201, payload = Some (JObject fields)\<rparr>, e')
    \<and> newProduct eng (now e) (body_or_empty req) = Inr created
    \<and> JSON_stringify created = Some (JObject fields)
    \<and> fmlookup fields ''id'' = Some (JString (show_int (now e)))
    \<and> show_int (now e) \<noteq> []
    \<and> fmlookup (objects e') BLOB_NAME
        = Some (Document (JArray (readProductsFromBlob e @ [JObject fields])))
    \<and> written e' = JArray (readProductsFromBlob e @ [JObject fields]) # written e
    \<and> (\<forall>e'' req'. objects e'' = objects e' \<and> \<not> list_fails e'' \<and> \<not> fetch_fails e'' \<and> fetch_ok e''
           \<and> req_method req' = ''GET'' \<longrightarrow>
          readProductsFromBlob e'' = readProductsFromBlob e @ [JObject fields]
        \<and> fst (handler eng e'' req')
            = \<lparr>headers = cors, status = 200,
                payload = Some (JArray (readProductsFromBlob e @ [JObject fields]))\<rparr>)"
proof -
  define body where "body = body_or_empty req"
  from assms(5-8) newProduct_Inr_iff [of eng "now e" body]
  obtain created where built: "newProduct eng (now e) body = Inr created"
    unfolding body_def by blast
  then obtain m where m: "created = Obj m"
    using newProduct_Obj by blast
  define fields where "fields = drop_undefined (fmmap JSON_stringify m)"
  define doc where "doc = JArray (readProductsFromBlob e @ [JObject fields])"
  define e' where "e' = e\<lparr>objects := fmupd BLOB_NAME (Document doc) (objects e), written := doc # written e\<rparr>"
  have created: "JSON_stringify created = Some (JObject fields)"
    by (simp add: m fields_def)
  have "fmlookup m ''id'' = Some (Str (show_int (now e)))"
    using built unfolding m by (rule newProduct_id)
  then have ident: "fmlookup fields ''id'' = Some (JString (show_int (now e)))"
    by (simp add: fields_def drop_undefined_lookup)
  have "map null_if_undefined (map JSON_stringify (map JSON_parse (readProductsFromBlob e) @ [created]))
      = readProductsFromBlob e @ [JObject fields]"
    by (simp add: created null_if_undefined_def del: JSON_stringify.simps)
  then have wr: "writeProductsToBlob e (map JSON_parse (readProductsFromBlob e) @ [created]) = Inr e'"
    using assms(9) by (simp add: write_ok e'_def doc_def del: JSON_stringify.simps)
  have h: "handler eng e req = (\<lparr>headers = cors, status = 201, payload = Some (JObject fields)\<rparr>, e')"
    using assms(1-4) wr created built
    by (simp add: handler_def dispatch_def post_branch_def Let_def respond_json_def
        body_def [symmetric] del: JSON_stringify.simps)
  have later: "readProductsFromBlob e'' = readProductsFromBlob e @ [JObject fields]"
    if "objects e'' = objects e'" "\<not> list_fails e''" "\<not> fetch_fails e''" "fetch_ok e''" for e''
    using that by (intro read_after_write) (simp_all add: e'_def doc_def)
  have stored: "fmlookup (objects e') BLOB_NAME = Some (Document doc)" and log: "written e' = doc # written e"
    by (simp_all add: e'_def)
  have get: "fst (handler eng e'' req') = \<lparr>headers = cors, status = 200, payload = Some doc\<rparr>"
    if "objects e'' = objects e'" "\<not> list_fails e''" "\<not> fetch_fails e''" "fetch_ok e''"
      "req_method req' = ''GET''" for e'' req'
    using later [OF that(1-4)] that(5) by (simp add: get_handler doc_def)
  have "handler eng e req = (\<lparr>headers = cors, status = 201, payload = Some (JObject fields)\<rparr>, e')
    \<and> newProduct eng (now e) (body_or_empty req) = Inr created
    \<and> JSON_stringify created = Some (JObject fields)
    \<and> fmlookup fields ''id'' = Some (JString (show_int (now e)))
    \<and> show_int (now e) \<noteq> []
    \<and> fmlookup (objects e') BLOB_NAME
        = Some (Document (JArray (readProductsFromBlob e @ [JObject fields])))
    \<and> written e' = JArray (readProductsFromBlob e @ [JObject fields]) # written e
    \<and> (\<forall>e'' req'. objects e'' = objects e' \<and> \<not> list_fails e'' \<and> \<not> fetch_fails e'' \<and> fetch_ok e''
           \<and> req_method req' = ''GET'' \<longrightarrow>
          readProductsFromBlob e'' = readProductsFromBlob e @ [JObject fields]
        \<and> fst (handler eng e'' req')
            = \<lparr>headers = cors, status = 200,
                payload = Some (JArray (readProductsFromBlob e @ [JObject fields]))\<rparr>)"
    using h built [unfolded body_def] created ident show_int_nonempty [of "now e"]
      stored log later get
    unfolding doc_def by blast
  then show ?thesis by blast
qed

theorem post_creates_and_appends_witness:
  "\<exists>fields e'.
      handler an_engine a_store
        (request_of ''POST'' [(''name'', JString ''Band''), (''price'', JNumber 80),
                              (''category'', JString ''rings'')])
        = (\<lparr>headers = cors, status = 201, payload = Some (JObject fields)\<rparr>, e')
    \<and> fmlookup fields ''id'' = Some (JString ''1730000000000'')
    \<and> readProductsFromBlob (a_store\<lparr>objects := objects e'\<rparr>) = [ring, stud, JObject fields]"
proof -
  let ?req = "request_of ''POST'' [(''name'', JString ''Band''), (''price'', JNumber 80),
                              (''category'', JString ''rings'')]"
  have body: "body_or_empty ?req = Obj (fmap_of_list [(''name'', Str ''Band''),
      (''price'', Num (Fin 80)), (''category'', Str ''rings'')])"
    by (simp add: request_of_def body_or_empty_def or_else_def fmmap_fmupd)
  have prior: "readProductsFromBlob a_store = [ring, stud]"
    by (simp add: readProductsFromBlob_def read_attempt_def a_store_def BLOB_NAME_def)
  have clock: "show_int (now a_store) = ''1730000000000''"
    by (simp add: a_store_def show_int_def show_digits.simps digit_char_def)
  from post_creates_and_appends [of ?req a_store an_engine]
  obtain created fields e' where *:
    "handler an_engine a_store ?req = (\<lparr>headers = cors, status = 201, payload = Some (JObject fields)\<rparr>, e')"
    "fmlookup fields ''id'' = Some (JString (show_int (now a_store)))"
    "\<forall>e'' req'. objects e'' = objects e' \<and> \<not> list_fails e'' \<and> \<not> fetch_fails e'' \<and> fetch_ok e''
           \<and> req_method req' = ''GET'' \<longrightarrow>
          readProductsFromBlob e'' = readProductsFromBlob a_store @ [JObject fields]
        \<and> fst (handler an_engine e'' req')
            = \<lparr>headers = cors, status = 200,
                payload = Some (JArray (readProductsFromBlob a_store @ [JObject fields]))\<rparr>"
    unfolding body by (auto simp: request_of_def get_def a_store_def)
  from *(3) [rule_format, of "a_store\<lparr>objects := objects e'\<rparr>" "\<lparr>req_method = ''GET'', req_body = None\<rparr>"]
  have "readProductsFromBlob (a_store\<lparr>objects := objects e'\<rparr>) = [ring, stud, JObject fields]"
    by (simp add: prior) (simp add: a_store_def)
  with *(1,2) clock show ?thesis by auto
qed

text \<open>
  Truthy \<^verbatim>\<open>name\<close>, \<^verbatim>\<open>price\<close> and \<^verbatim>\<open>category\<close> alone do not give 201: with the category
  \<^verbatim>\<open>{"toString": 1}\<close> the conversion \<^verbatim>\<open>String(body.category)\<close> throws, the handler answers 500
  and nothing is written.
\<close>

theorem post_unconvertible_category_counterexample:
  "ToBoolean (get (body_or_empty (request_of ''POST'' [(''name'', JString ''n''),
       (''price'', JNumber 1),
       (''category'', JObject (fmap_of_list [(''toString'', JNumber 1)]))])) ''name'')
   \<and> ToBoolean (get (body_or_empty (request_of ''POST'' [(''name'', JString ''n''),
       (''price'', JNumber 1),
       (''category'', JObject (fmap_of_list [(''toString'', JNumber 1)]))])) ''price'')
   \<and> ToBoolean (get (body_or_empty (request_of ''POST'' [(''name'', JString ''n''),
       (''price'', JNumber 1),
       (''category'', JObject (fmap_of_list [(''toString'', JNumber 1)]))])) ''category'')
   \<and> handler an_engine a_store
       (request_of ''POST'' [(''name'', JString ''n''), (''price'', JNumber 1),
          (''category'', JObject (fmap_of_list [(''toString'', JNumber 1)]))])
     = (\<lparr>headers = cors, status = 500,
         payload = Some (JObject (fmap_of_list
           [(''error'', JString ''Cannot convert object to primitive value'')]))\<rparr>,
        a_store)"
  by code_simp

text \<open>
  Claim C2. A POST whose body lacks \<^verbatim>\<open>name\<close>, \<^verbatim>\<open>price\<close> or \<^verbatim>\<open>category\<close>, or gives one of
  them a falsy value, answers 400 and leaves the store exactly as it was: no object is
  replaced and nothing is added to the log of writes.
\<close>

theorem post_missing_field_rejected:
  assumes "req_method req = ''POST''"
    and "\<not> ToBoolean (get (body_or_empty req) ''name'')
       \<or> \<not> ToBoolean (get (body_or_empty req) ''price'')
       \<or> \<not> ToBoolean (get (body_or_empty req) ''category'')"
  shows "handler eng e req = (respond_json 400 (error_body ''Missing required fields''), e)
       \<and> status (fst (handler eng e req)) = 400
       \<and> snd (handler eng e req) = e"
  using assms by (auto simp: handler_def dispatch_def post_branch_def Let_def respond_json_def)

theorem post_missing_field_rejected_witness:
  "status (fst (handler an_engine a_store
      (request_of ''POST'' [(''name'', JString ''Band''), (''price'', JNumber 0),
                            (''category'', JString ''rings'')]))) = 400
   \<and> snd (handler an_engine a_store
      (request_of ''POST'' [(''name'', JString ''Band''), (''price'', JNumber 0),
                            (''category'', JString ''rings'')])) = a_store"
  using post_missing_field_rejected [of "request_of ''POST'' [(''name'', JString ''Band''),
      (''price'', JNumber 0), (''category'', JString ''rings'')]" an_engine a_store]
  by (simp add: request_of_def body_or_empty_def or_else_def get_def respond_json_def)

section \<open>Updating a product\<close>

text \<open>
  Claim C3. A PUT that names the id of a record of the snapshot and carries an \<^verbatim>\<open>updates\<close>
  value of type object, against a snapshot without null elements and a store that accepts
  the write, answers 200 with the merged record. The record located is the first whose id
  is strictly equal to the given one. Every field of \<^verbatim>\<open>updates\<close> has its new value in the
  merged record, every other field keeps the value it had, and the document written is
  the snapshot with the merged record at the same position, every other position as
  before.
\<close>

theorem put_merges_updates:
  assumes "req_method req = ''PUT''"
    and "ToBoolean (get (body_or_empty req) ''id'')"
    and "typeof (get (body_or_empty req) ''updates'') = ''object''"
    and "JNull \<notin> set (readProductsFromBlob e)"
    and "\<exists>p\<in>set (readProductsFromBlob e).
           strict_eq (get (JSON_parse p) ''id'') (get (body_or_empty req) ''id'')"
    and "put_fails e = None"
  shows "\<exists>idx m m0 e'.
      idx < length (readProductsFromBlob e)
    \<and> readProductsFromBlob e ! idx = JObject m0
    \<and> strict_eq (get (JSON_parse (readProductsFromBlob e ! idx)) ''id'') (get (body_or_empty req) ''id'')
    \<and> (\<forall>j<idx. \<not> strict_eq (get (JSON_parse (readProductsFromBlob e ! j)) ''id'')
                     (get (body_or_empty req) ''id''))
    \<and> handler eng e req = (\<lparr>headers = cors, status = 200, payload = Some (JObject m)\<rparr>, e')
    \<and> (\<forall>k v. fmlookup (own_properties (get (body_or_empty req) ''updates'')) k = Some v
          \<longrightarrow> map_option JSON_parse (fmlookup m k) = Some v)
    \<and> (\<forall>k. fmlookup (own_properties (get (body_or_empty req) ''updates'')) k = None
          \<longrightarrow> fmlookup m k = fmlookup m0 k)
    \<and> fmlookup (objects e') BLOB_NAME
        = Some (Document (JArray ((readProductsFromBlob e)[idx := JObject m])))
    \<and> written e' = JArray ((readProductsFromBlob e)[idx := JObject m]) # written e
    \<and> length ((readProductsFromBlob e)[idx := JObject m]) = length (readProductsFromBlob e)
    \<and> (\<forall>j<length (readProductsFromBlob e). j \<noteq> idx \<longrightarrow>
          (readProductsFromBlob e)[idx := JObject m] ! j = readProductsFromBlob e ! j)"
proof -
  define ident where "ident = get (body_or_empty req) ''id''"
  define updates where "updates = get (body_or_empty req) ''updates''"
  define prior where "prior = readProductsFromBlob e"
  define P where "P = (\<lambda>x. strict_eq (get x ''id'') ident)"
  have pure: "\<forall>x\<in>set (map JSON_parse prior). id_is ident x = Inr (P x)"
  proof
    fix x assume "x \<in> set (map JSON_parse prior)"
    then obtain d where d: "d \<in> set prior" "x = JSON_parse d" by auto
    with assms(4) have "d \<noteq> JNull" by (auto simp: prior_def)
    with d show "id_is ident x = Inr (P x)" by (simp add: id_is_parsed P_def)
  qed
  from assms(5) have "\<exists>x\<in>set (map JSON_parse prior). P x"
    by (auto simp: P_def prior_def ident_def)
  with findIndex_pure [OF pure]
  obtain idx where idx: "idx < length prior"
    "findIndex (id_is ident) (map JSON_parse prior) = Inr (Some idx)"
    "P (map JSON_parse prior ! idx)" "\<forall>j<idx. \<not> P (map JSON_parse prior ! j)"
    by auto
  from put_located [OF assms(1,2,3) idx(2) [unfolded ident_def prior_def] assms(6), of eng]
  obtain m m0 where m: "prior ! idx = JObject m0"
    "fmmap JSON_parse m = fmmap JSON_parse m0 ++\<^sub>f own_properties updates"
    "handler eng e req
        = (\<lparr>headers = cors, status = 200, payload = Some (JObject m)\<rparr>,
           e\<lparr>objects := fmupd BLOB_NAME (Document (JArray (prior[idx := JObject m]))) (objects e),
             written := JArray (prior[idx := JObject m]) # written e\<rparr>)"
    unfolding prior_def ident_def updates_def by blast
  have look: "map_option JSON_parse (fmlookup m k)
      = (case fmlookup (own_properties updates) k of
           Some v \<Rightarrow> Some v | None \<Rightarrow> map_option JSON_parse (fmlookup m0 k))" for k
    using arg_cong [OF m(2), of "\<lambda>f. fmlookup f k"]
    by (simp add: fmlookup_dom_iff split: option.splits)
  have new: "map_option JSON_parse (fmlookup m k) = Some v"
    if "fmlookup (own_properties updates) k = Some v" for k v
    using look [of k] that by simp
  have old: "fmlookup m k = fmlookup m0 k" if "fmlookup (own_properties updates) k = None" for k
  proof -
    from look [of k] that
    have "map_option JSON_parse (fmlookup m k) = map_option JSON_parse (fmlookup m0 k)" by simp
    then show ?thesis
      by (cases "fmlookup m k"; cases "fmlookup m0 k") (auto dest: parse_inj)
  qed
  have first: "strict_eq (get (JSON_parse (prior ! idx)) ''id'') ident"
    "\<forall>j<idx. \<not> strict_eq (get (JSON_parse (prior ! j)) ''id'') ident"
    using idx(1,3,4) by (auto simp: P_def)
  define e' where "e' = e\<lparr>objects := fmupd BLOB_NAME (Document (JArray (prior[idx := JObject m]))) (objects e),
             written := JArray (prior[idx := JObject m]) # written e\<rparr>"
  have stored: "fmlookup (objects e') BLOB_NAME = Some (Document (JArray (prior[idx := JObject m])))"
    "written e' = JArray (prior[idx := JObject m]) # written e"
    by (simp_all add: e'_def)
  have frame: "length (prior[idx := JObject m]) = length prior"
    "\<forall>j<length prior. j \<noteq> idx \<longrightarrow> prior[idx := JObject m] ! j = prior ! j"
    by simp_all
  have "idx < length prior \<and> prior ! idx = JObject m0
    \<and> strict_eq (get (JSON_parse (prior ! idx)) ''id'') ident
    \<and> (\<forall>j<idx. \<not> strict_eq (get (JSON_parse (prior ! j)) ''id'') ident)
    \<and> handler eng e req = (\<lparr>headers = cors, status = 200, payload = Some (JObject m)\<rparr>, e')
    \<and> (\<forall>k v. fmlookup (own_properties updates) k = Some v
          \<longrightarrow> map_option JSON_parse (fmlookup m k) = Some v)
    \<and> (\<forall>k. fmlookup (own_properties updates) k = None \<longrightarrow> fmlookup m k = fmlookup m0 k)
    \<and> fmlookup (objects e') BLOB_NAME = Some (Document (JArray (prior[idx := JObject m])))
    \<and> written e' = JArray (prior[idx := JObject m]) # written e
    \<and> length (prior[idx := JObject m]) = length prior
    \<and> (\<forall>j<length prior. j \<noteq> idx \<longrightarrow> prior[idx := JObject m] ! j = prior ! j)"
    using idx(1) m(1) first m(3) [folded e'_def] new old stored frame by blast
  then show ?thesis
    unfolding prior_def ident_def updates_def by blast
qed

theorem put_merges_updates_witness:
  "\<exists>m e'.
      handler an_engine a_store
        (request_of ''PUT'' [(''id'', JString ''2''),
           (''updates'', JObject (fmap_of_list [(''price'', JNumber 300), (''stock'', JNumber 4)]))])
        = (\<lparr>headers = cors, status = 200, payload = Some (JObject m)\<rparr>, e')
    \<and> fmlookup m ''price'' = Some (JNumber 300)
    \<and> fmlookup m ''stock'' = Some (JNumber 4)
    \<and> fmlookup m ''name'' = Some (JString ''Stud'')
    \<and> fmlookup (objects e') BLOB_NAME = Some (Document (JArray [ring, JObject m]))"
proof -
  let ?req = "request_of ''PUT'' [(''id'', JString ''2''),
           (''updates'', JObject (fmap_of_list [(''price'', JNumber 300), (''stock'', JNumber 4)]))]"
  have ident: "get (body_or_empty ?req) ''id'' = Str ''2''"
    and updates: "get (body_or_empty ?req) ''updates''
        = Obj (fmap_of_list [(''price'', Num (Fin 300)), (''stock'', Num (Fin 4))])"
    by (simp_all add: request_of_def body_or_empty_def or_else_def get_def fmmap_fmupd)
  have ids: "get (JSON_parse ring) ''id'' = Str ''1''" "get (JSON_parse stud) ''id'' = Str ''2''"
    by (simp_all add: ring_def stud_def get_def)
  have "req_method ?req = ''PUT''" by (simp add: request_of_def)
  moreover have "ToBoolean (get (body_or_empty ?req) ''id'')" using ident by simp
  moreover have "typeof (get (body_or_empty ?req) ''updates'') = ''object''" using updates by simp
  moreover have "JNull \<notin> set (readProductsFromBlob a_store)"
    by (simp add: prior_a_store ring_def stud_def)
  moreover have "\<exists>p\<in>set (readProductsFromBlob a_store).
           strict_eq (get (JSON_parse p) ''id'') (get (body_or_empty ?req) ''id'')"
    using ident by (simp add: prior_a_store ids)
  moreover have "put_fails a_store = None" by (simp add: a_store_def)
  ultimately obtain idx m m0 e' where *:
    "idx < length [ring, stud]" "[ring, stud] ! idx = JObject m0"
    "strict_eq (get (JSON_parse ([ring, stud] ! idx)) ''id'') (Str ''2'')"
    "handler an_engine a_store ?req = (\<lparr>headers = cors, status = 200, payload = Some (JObject m)\<rparr>, e')"
    "\<forall>k v. fmlookup (own_properties (get (body_or_empty ?req) ''updates'')) k = Some v
          \<longrightarrow> map_option JSON_parse (fmlookup m k) = Some v"
    "\<forall>k. fmlookup (own_properties (get (body_or_empty ?req) ''updates'')) k = None
          \<longrightarrow> fmlookup m k = fmlookup m0 k"
    "fmlookup (objects e') BLOB_NAME = Some (Document (JArray ([ring, stud][idx := JObject m])))"
    using put_merges_updates [of ?req a_store an_engine]
    unfolding prior_a_store ident by blast
  from *(1,3) have idx: "idx = 1"
    by (cases idx) (simp_all add: ids)
  with *(2) have m0: "m0 = fmap_of_list [(''id'', JString ''2''), (''name'', JString ''Stud''),
                                (''price'', JNumber 250)]"
    by (simp add: stud_def)
  have own: "own_properties (get (body_or_empty ?req) ''updates'')
      = fmap_of_list [(''price'', Num (Fin 300)), (''stock'', Num (Fin 4))]"
    using updates by (simp add: own_properties_def)
  have "map_option JSON_parse (fmlookup m ''price'') = Some (Num (Fin 300))"
    "map_option JSON_parse (fmlookup m ''stock'') = Some (Num (Fin 4))"
    using *(5) [rule_format, of "''price''"] *(5) [rule_format, of "''stock''"] using own by simp_all
  then have "fmlookup m ''price'' = Some (JNumber 300)" "fmlookup m ''stock'' = Some (JNumber 4)"
    using parse_inj [of _ "JNumber 300"] parse_inj [of _ "JNumber 4"] by auto
  moreover have "fmlookup m ''name'' = Some (JString ''Stud'')"
    using *(6) [rule_format, of "''name''"] using own by (simp add: m0)
  ultimately show ?thesis
    using *(4,7) idx by auto
qed

lemma put_rejects_missing_input:
  assumes "req_method req = ''PUT''"
    and "\<not> ToBoolean (get (body_or_empty req) ''id'')
       \<or> typeof (get (body_or_empty req) ''updates'') \<noteq> ''object''"
  shows "handler eng e req = (respond_json 400 (error_body ''id and updates are required''), e)"
  using assms by (auto simp: handler_def dispatch_def put_branch_def Let_def)

lemma put_unknown_id:
  assumes "req_method req = ''PUT''"
    and "ToBoolean (get (body_or_empty req) ''id'')"
    and "typeof (get (body_or_empty req) ''updates'') = ''object''"
    and "JNull \<notin> set (readProductsFromBlob e)"
    and "\<forall>p\<in>set (readProductsFromBlob e).
           \<not> strict_eq (get (JSON_parse p) ''id'') (get (body_or_empty req) ''id'')"
  shows "handler eng e req = (respond_json 404 (error_body ''Not found''), e)"
proof -
  define P where "P = (\<lambda>x. strict_eq (get x ''id'') (get (body_or_empty req) ''id''))"
  have "\<forall>x\<in>set (map JSON_parse (readProductsFromBlob e)).
          id_is (get (body_or_empty req) ''id'') x = Inr (P x)"
  proof
    fix x assume "x \<in> set (map JSON_parse (readProductsFromBlob e))"
    then obtain d where d: "d \<in> set (readProductsFromBlob e)" "x = JSON_parse d" by auto
    with assms(4) have "d \<noteq> JNull" by auto
    with d show "id_is (get (body_or_empty req) ''id'') x = Inr (P x)"
      by (simp add: id_is_parsed P_def)
  qed
  from findIndex_pure [OF this] assms(5)
  have "findIndex (id_is (get (body_or_empty req) ''id''))
          (map JSON_parse (readProductsFromBlob e)) = Inr None"
    by (auto simp: P_def)
  with assms(1,2,3) show ?thesis
    by (simp add: handler_def dispatch_def put_branch_def Let_def)
qed

text \<open>
  Claim C4. The handler is evaluated on a PUT whose body is \<^verbatim>\<open>{"id": "1", "updates": null}\<close>,
  against a catalog that holds a record with id 1. The value null has type object for
  \<^verbatim>\<open>typeof\<close>, so the request passes the check of the PUT branch: the answer is 200 with
  the record as it was, and the snapshot is written again.
\<close>

theorem put_null_updates_accepted:
  "get (body_or_empty (request_of ''PUT'' [(''id'', JString ''1''), (''updates'', JNull)])) ''updates'' = Null
   \<and> handler an_engine a_store (request_of ''PUT'' [(''id'', JString ''1''), (''updates'', JNull)])
     = (\<lparr>headers = cors, status = 200, payload = Some ring\<rparr>,
        a_store\<lparr>written := [JArray [ring, stud]]\<rparr>)"
  by code_simp

text \<open>
  Claim C5. The id of a record follows \<^verbatim>\<open>updates\<close>. For every PUT answered 200, the merged record
  (returned, and written at the position of the record located) has the id the record
  was located by when \<^verbatim>\<open>updates\<close> has no field \<^verbatim>\<open>id\<close>; when \<^verbatim>\<open>updates\<close> has a field
  \<^verbatim>\<open>id\<close>, the merged record has that value as its id.
\<close>

theorem put_id_follows_updates:
  assumes "req_method req = ''PUT''" and "status (fst (handler eng e req)) = 200"
  shows "\<exists>idx m m0.
      idx < length (readProductsFromBlob e)
    \<and> readProductsFromBlob e ! idx = JObject m0
    \<and> map_option JSON_parse (fmlookup m0 ''id'') = Some (get (body_or_empty req) ''id'')
    \<and> payload (fst (handler eng e req)) = Some (JObject m)
    \<and> fmlookup (objects (snd (handler eng e req))) BLOB_NAME
        = Some (Document (JArray ((readProductsFromBlob e)[idx := JObject m])))
    \<and> (fmlookup (own_properties (get (body_or_empty req) ''updates'')) ''id'' = None
        \<longrightarrow> map_option JSON_parse (fmlookup m ''id'') = Some (get (body_or_empty req) ''id''))
    \<and> (\<forall>v. fmlookup (own_properties (get (body_or_empty req) ''updates'')) ''id'' = Some v
        \<longrightarrow> map_option JSON_parse (fmlookup m ''id'') = Some v)"
proof -
  from put_succeeded [OF assms] obtain idx where ok:
    "ToBoolean (get (body_or_empty req) ''id'')"
    "typeof (get (body_or_empty req) ''updates'') = ''object''"
    "findIndex (id_is (get (body_or_empty req) ''id''))
        (map JSON_parse (readProductsFromBlob e)) = Inr (Some idx)"
    "put_fails e = None"
    by blast
  from put_located [OF assms(1) ok, of eng]
  obtain m m0 i where m: "idx < length (readProductsFromBlob e)"
    "readProductsFromBlob e ! idx = JObject m0"
    "fmlookup m0 ''id'' = Some i" "JSON_parse i = get (body_or_empty req) ''id''"
    "fmmap JSON_parse m = fmmap JSON_parse m0 ++\<^sub>f own_properties (get (body_or_empty req) ''updates'')"
    "handler eng e req
        = (\<lparr>headers = cors, status = 200, payload = Some (JObject m)\<rparr>,
           e\<lparr>objects := fmupd BLOB_NAME
                 (Document (JArray ((readProductsFromBlob e)[idx := JObject m]))) (objects e),
             written := JArray ((readProductsFromBlob e)[idx := JObject m]) # written e\<rparr>)"
    by blast
  have look: "map_option JSON_parse (fmlookup m ''id'')
      = (case fmlookup (own_properties (get (body_or_empty req) ''updates'')) ''id'' of
           Some v \<Rightarrow> Some v | None \<Rightarrow> Some (get (body_or_empty req) ''id''))"
    using arg_cong [OF m(5), of "\<lambda>f. fmlookup f ''id''"] m(3,4)
    by (simp add: fmlookup_dom_iff split: option.splits)
  have "map_option JSON_parse (fmlookup m0 ''id'') = Some (get (body_or_empty req) ''id'')"
    using m(3,4) by simp
  moreover have "payload (fst (handler eng e req)) = Some (JObject m)"
    and "fmlookup (objects (snd (handler eng e req))) BLOB_NAME
        = Some (Document (JArray ((readProductsFromBlob e)[idx := JObject m])))"
    by (simp_all add: m(6))
  ultimately show ?thesis
    using m(1,2) look by (intro exI [of _ idx] exI [of _ m] exI [of _ m0]) simp
qed

theorem put_id_follows_updates_witness:
  "\<exists>m. payload (fst (handler an_engine a_store
       (request_of ''PUT'' [(''id'', JString ''2''),
          (''updates'', JObject (fmap_of_list [(''price'', JNumber 300)]))]))) = Some (JObject m)
     \<and> fmlookup m ''id'' = Some (JString ''2'')"
proof -
  let ?req = "request_of ''PUT'' [(''id'', JString ''2''),
          (''updates'', JObject (fmap_of_list [(''price'', JNumber 300)]))]"
  have "req_method ?req = ''PUT''" by (simp add: request_of_def)
  moreover have "status (fst (handler an_engine a_store ?req)) = 200" by code_simp
  moreover have "get (body_or_empty ?req) ''id'' = Str ''2''" by code_simp
  moreover have "fmlookup (own_properties (get (body_or_empty ?req) ''updates'')) ''id'' = None"
    by code_simp
  ultimately obtain m where "payload (fst (handler an_engine a_store ?req)) = Some (JObject m)"
    "map_option JSON_parse (fmlookup m ''id'') = Some (Str ''2'')"
    using put_id_follows_updates [of ?req an_engine a_store] by auto
  moreover from this(2) have "fmlookup m ''id'' = Some (JString ''2'')"
    using parse_inj [of _ "JString ''2''"] by auto
  ultimately show ?thesis by blast
qed

text \<open>
  The id is not immutable: a PUT located by id 1 whose \<^verbatim>\<open>updates\<close> is \<^verbatim>\<open>{"id": "9"}\<close> returns
  and stores the record under id 9.
\<close>

theorem put_overwrites_id_counterexample:
  "get (body_or_empty (request_of ''PUT'' [(''id'', JString ''1''),
        (''updates'', JObject (fmap_of_list [(''id'', JString ''9'')]))])) ''id'' = Str ''1''
   \<and> readProductsFromBlob a_store ! 0 = ring
   \<and> handler an_engine a_store
       (request_of ''PUT'' [(''id'', JString ''1''),
          (''updates'', JObject (fmap_of_list [(''id'', JString ''9'')]))])
     = (\<lparr>headers = cors, status = 200,
         payload = Some (JObject (fmap_of_list [(''id'', JString ''9''), (''name'', JString ''Ring''),
                                                (''price'', JNumber 100)]))\<rparr>,
        a_store\<lparr>objects := fmap_of_list [(''products.json'', Document (JArray
             [JObject (fmap_of_list [(''id'', JString ''9''), (''name'', JString ''Ring''),
                                     (''price'', JNumber 100)]), stud]))],
          written := [JArray
             [JObject (fmap_of_list [(''id'', JString ''9''), (''name'', JString ''Ring''),
                                     (''price'', JNumber 100)]), stud]]\<rparr>)"
  by code_simp

section \<open>Reading the snapshot\<close>

text \<open>
  Claim C6. Reading the snapshot yields the empty catalog whenever \<^verbatim>\<open>list\<close> fails, no blob has
  the name, \<^verbatim>\<open>fetch\<close> fails or answers not ok, the body does not parse, or the document is
  not an array; whatever the attempt throws is absorbed. A GET always answers 200 and
  leaves the store alone, and with no blob under the name its body is the empty array.
\<close>

theorem read_never_fails:
  "(list_fails e \<or> BLOB_NAME |\<notin>| fmdom (objects e) \<or> fetch_fails e \<or> \<not> fetch_ok e
      \<or> fmlookup (objects e) BLOB_NAME = Some Unparsable
      \<or> (\<exists>d. fmlookup (objects e) BLOB_NAME = Some (Document d) \<and> (\<forall>xs. d \<noteq> JArray xs))
     \<longrightarrow> readProductsFromBlob e = [])
   \<and> (\<forall>err. read_attempt e = Inl err \<longrightarrow> readProductsFromBlob e = [])
   \<and> (req_method req = ''GET'' \<longrightarrow>
        status (fst (handler eng e req)) = 200 \<and> snd (handler eng e req) = e)
   \<and> (req_method req = ''GET'' \<and> BLOB_NAME |\<notin>| fmdom (objects e) \<longrightarrow>
        handler eng e req = (\<lparr>headers = cors, status = 200, payload = Some (JArray [])\<rparr>, e))"
proof -
  have absent: "readProductsFromBlob e = []" if "BLOB_NAME |\<notin>| fmdom (objects e)"
    using that by (simp add: readProductsFromBlob_def read_attempt_def Let_def)
  have "readProductsFromBlob e = []"
    if "list_fails e \<or> BLOB_NAME |\<notin>| fmdom (objects e) \<or> fetch_fails e \<or> \<not> fetch_ok e
      \<or> fmlookup (objects e) BLOB_NAME = Some Unparsable
      \<or> (\<exists>d. fmlookup (objects e) BLOB_NAME = Some (Document d) \<and> (\<forall>xs. d \<noteq> JArray xs))"
    using that
    by (auto simp: readProductsFromBlob_def read_attempt_def Let_def
        split: option.splits stored.splits json.splits)
  moreover have "\<forall>err. read_attempt e = Inl err \<longrightarrow> readProductsFromBlob e = []"
    by (simp add: readProductsFromBlob_def)
  moreover have "req_method req = ''GET'' \<longrightarrow>
        status (fst (handler eng e req)) = 200 \<and> snd (handler eng e req) = e"
    by (simp add: get_handler)
  moreover have "req_method req = ''GET'' \<and> BLOB_NAME |\<notin>| fmdom (objects e) \<longrightarrow>
        handler eng e req = (\<lparr>headers = cors, status = 200, payload = Some (JArray [])\<rparr>, e)"
    by (simp add: get_handler absent)
  ultimately show ?thesis by blast
qed

theorem read_never_fails_witness:
  "readProductsFromBlob (a_store\<lparr>fetch_fails := True\<rparr>) = []
   \<and> handler an_engine an_empty_store \<lparr>req_method = ''GET'', req_body = None\<rparr>
       = (\<lparr>headers = cors, status = 200, payload = Some (JArray [])\<rparr>, an_empty_store)"
  using read_never_fails [of "a_store\<lparr>fetch_fails := True\<rparr>" "\<lparr>req_method = ''GET'', req_body = None\<rparr>" an_engine]
    read_never_fails [of an_empty_store "\<lparr>req_method = ''GET'', req_body = None\<rparr>" an_engine]
  by (simp add: a_store_def an_empty_store_def)

section \<open>Deleting a product\<close>

text \<open>
  Claim C7. A DELETE with a truthy id, against a snapshot without null elements and a store
  that accepts the write, answers 200 with \<^verbatim>\<open>{ok: true}\<close> and writes the snapshot without
  the records whose id is strictly equal to the given one, the others in their order. When
  no record has that id the document written is the snapshot that was read.
\<close>

theorem delete_removes_matching:
  assumes "req_method req = ''DELETE''"
    and "ToBoolean (get (body_or_empty req) ''id'')"
    and "JNull \<notin> set (readProductsFromBlob e)"
    and "put_fails e = None"
  shows "\<exists>e'.
      handler eng e req
        = (\<lparr>headers = cors, status = 200,
            payload = Some (JObject (fmap_of_list [(''ok'', JBool True)]))\<rparr>, e')
    \<and> fmlookup (objects e') BLOB_NAME
        = Some (Document (JArray
            (filter (\<lambda>p. \<not> strict_eq (get (JSON_parse p) ''id'') (get (body_or_empty req) ''id''))
               (readProductsFromBlob e))))
    \<and> written e'
        = JArray (filter (\<lambda>p. \<not> strict_eq (get (JSON_parse p) ''id'') (get (body_or_empty req) ''id''))
               (readProductsFromBlob e)) # written e
    \<and> ((\<forall>p\<in>set (readProductsFromBlob e).
           \<not> strict_eq (get (JSON_parse p) ''id'') (get (body_or_empty req) ''id''))
        \<longrightarrow> fmlookup (objects e') BLOB_NAME = Some (Document (JArray (readProductsFromBlob e))))"
proof -
  define ident where "ident = get (body_or_empty req) ''id''"
  define prior where "prior = readProductsFromBlob e"
  define kept where "kept = filter (\<lambda>p. \<not> strict_eq (get (JSON_parse p) ''id'') ident) prior"
  define e' where "e' = e\<lparr>objects := fmupd BLOB_NAME (Document (JArray kept)) (objects e),
                         written := JArray kept # written e\<rparr>"
  have "\<forall>x\<in>set (map JSON_parse prior). id_is_not ident x = Inr (\<not> strict_eq (get x ''id'') ident)"
  proof
    fix x assume "x \<in> set (map JSON_parse prior)"
    then obtain d where d: "d \<in> set prior" "x = JSON_parse d" by auto
    with assms(3) have "d \<noteq> JNull" by (auto simp: prior_def)
    with d show "id_is_not ident x = Inr (\<not> strict_eq (get x ''id'') ident)"
      by (simp add: id_is_not_parsed)
  qed
  then have "filter_js (id_is_not ident) (map JSON_parse prior)
      = Inr (filter (\<lambda>x. \<not> strict_eq (get x ''id'') ident) (map JSON_parse prior))"
    by (rule filter_js_pure)
  then have flt: "filter_js (id_is_not ident) (map JSON_parse prior) = Inr (map JSON_parse kept)"
    by (simp add: kept_def filter_map comp_def)
  have wr: "writeProductsToBlob e (map JSON_parse kept) = Inr e'"
    using assms(4) by (simp add: write_ok e'_def del: JSON_stringify.simps)
  have h: "handler eng e req
        = (\<lparr>headers = cors, status = 200,
            payload = Some (JObject (fmap_of_list [(''ok'', JBool True)]))\<rparr>, e')"
    using assms(1,2) flt wr
    by (simp add: handler_def dispatch_def delete_branch_def Let_def respond_json_def
        ident_def [symmetric] prior_def [symmetric] drop_undefined_def fmmap_fmupd)
  have same: "kept = prior" if "\<forall>p\<in>set prior. \<not> strict_eq (get (JSON_parse p) ''id'') ident"
    using that by (simp add: kept_def)
  have "fmlookup (objects e') BLOB_NAME = Some (Document (JArray kept))"
    and "written e' = JArray kept # written e"
    by (simp_all add: e'_def)
  with h same show ?thesis
    unfolding kept_def prior_def ident_def by (intro exI [of _ e']) auto
qed

theorem delete_removes_matching_witness:
  "\<exists>e'. handler an_engine a_store (request_of ''DELETE'' [(''id'', JString ''1'')])
      = (\<lparr>headers = cors, status = 200,
          payload = Some (JObject (fmap_of_list [(''ok'', JBool True)]))\<rparr>, e')
     \<and> fmlookup (objects e') BLOB_NAME = Some (Document (JArray [stud]))"
proof -
  let ?req = "request_of ''DELETE'' [(''id'', JString ''1'')]"
  have "req_method ?req = ''DELETE''" by (simp add: request_of_def)
  moreover have "ToBoolean (get (body_or_empty ?req) ''id'')" by code_simp
  moreover have "JNull \<notin> set (readProductsFromBlob a_store)"
    by (simp add: prior_a_store ring_def stud_def)
  moreover have "put_fails a_store = None" by (simp add: a_store_def)
  moreover have "filter (\<lambda>p. \<not> strict_eq (get (JSON_parse p) ''id'') (get (body_or_empty ?req) ''id''))
               (readProductsFromBlob a_store) = [stud]"
    by code_simp
  ultimately show ?thesis
    using delete_removes_matching [of ?req a_store an_engine] by auto
qed

section \<open>The fields of a created product\<close>

text \<open>
  What the object literal of the POST branch holds when no conversion throws: \<^verbatim>\<open>price\<close> is
  the number \<^verbatim>\<open>Number(body.price)\<close>; \<^verbatim>\<open>offerPrice\<close> is the number \<^verbatim>\<open>Number(body.offerPrice)\<close>
  when the supplied value is truthy and undefined otherwise, in which case the serialised
  record has no such key; \<^verbatim>\<open>stock\<close> is always a number, the supplied value when that is
  already a finite number and 0 otherwise; \<^verbatim>\<open>images\<close> is the supplied value when that is an
  array and the empty array otherwise.
\<close>

lemma new_product_fields:
  assumes "newProduct eng t body = Inr created"
  shows "\<exists>m j. created = Obj m
     \<and> JSON_stringify created = Some (JObject j)
     \<and> (\<exists>n. Number_of eng (get body ''price'') = Inr n \<and> fmlookup m ''price'' = Some (Num n))
     \<and> (ToBoolean (get body ''offerPrice'') \<longrightarrow>
          (\<exists>n. Number_of eng (get body ''offerPrice'') = Inr n
             \<and> fmlookup m ''offerPrice'' = Some (Num n)))
     \<and> (\<not> ToBoolean (get body ''offerPrice'') \<longrightarrow>
          fmlookup m ''offerPrice'' = Some Undefined \<and> fmlookup j ''offerPrice'' = None)
     \<and> (\<exists>n. fmlookup m ''stock'' = Some (Num n))
     \<and> (Number_isFinite (get body ''stock'') \<longrightarrow> fmlookup m ''stock'' = Some (get body ''stock''))
     \<and> (\<not> Number_isFinite (get body ''stock'') \<longrightarrow> fmlookup m ''stock'' = Some (Num (Fin 0)))
     \<and> (Array_isArray (get body ''images'') \<longrightarrow> fmlookup m ''images'' = Some (get body ''images''))
     \<and> (\<not> Array_isArray (get body ''images'') \<longrightarrow> fmlookup m ''images'' = Some (Arr []))"
proof -
  have fin: "Number_of eng v = Inr n \<Longrightarrow> Num n = v" if "Number_isFinite v" for v n
    using that by (induction v rule: Number_isFinite.induct) (simp_all add: Number_of_def)
  show ?thesis
    using assms
    by (auto simp: newProduct_def and_then_def drop_undefined_lookup
        split: sum.splits if_splits dest: fin)
qed

text \<open>
  Claim C8. The handler is evaluated on a POST whose body gives \<^verbatim>\<open>stock\<close> as the string
  \<^verbatim>\<open>"5"\<close>. \<^verbatim>\<open>Number("5")\<close> is the finite number 5, but \<^verbatim>\<open>Number.isFinite\<close> does not convert
  its argument and is false on every string: the record created, returned and stored has
  stock 0.
\<close>

theorem post_string_stock_zeroed:
  "get (body_or_empty (request_of ''POST'' [(''name'', JString ''Band''), (''price'', JNumber 80),
        (''category'', JString ''rings''), (''stock'', JString ''5'')])) ''stock'' = Str ''5''
   \<and> Number_of an_engine (Str ''5'') = Inr (Fin 5)
   \<and> handler an_engine an_empty_store
       (request_of ''POST'' [(''name'', JString ''Band''), (''price'', JNumber 80),
          (''category'', JString ''rings''), (''stock'', JString ''5'')])
     = (\<lparr>headers = cors, status = 201,
         payload = Some (JObject (fmap_of_list
           [(''id'', JString ''1730000000000''), (''name'', JString ''Band''),
            (''price'', JNumber 80), (''images'', JArray []), (''category'', JString ''rings''),
            (''description'', JString []), (''stock'', JNumber 0)]))\<rparr>,
        an_empty_store\<lparr>
          objects := fmap_of_list [(''products.json'', Document (JArray [JObject (fmap_of_list
           [(''id'', JString ''1730000000000''), (''name'', JString ''Band''),
            (''price'', JNumber 80), (''images'', JArray []), (''category'', JString ''rings''),
            (''description'', JString []), (''stock'', JNumber 0)])]))],
          written := [JArray [JObject (fmap_of_list
           [(''id'', JString ''1730000000000''), (''name'', JString ''Band''),
            (''price'', JNumber 80), (''images'', JArray []), (''category'', JString ''rings''),
            (''description'', JString []), (''stock'', JNumber 0)])]]\<rparr>)"
  by code_simp

section \<open>The client: search and update\<close>

lemma starts_with_prefix: "starts_with s q \<longleftrightarrow> prefix q s"
  by (induction s q rule: starts_with.induct) auto

lemma includes_sublist: "String_includes s q \<longleftrightarrow> sublist q s"
  by (induction s) (simp_all add: starts_with_prefix sublist_Cons_right del: starts_with.simps)

text \<open>
  Claim C9. \<open>searchProducts\<close> returns exactly the products for which the lowercased query is a
  substring of the lowercased name, description or category, in the order they have in
  \<open>products\<close>. Hence when the query occurs in the description of one product and in no
  field of any other, the result is that product alone.
\<close>

theorem search_is_substring_filter:
  "searchProducts products query = filter (spec_matches query) products
   \<and> subseq (searchProducts products query) products
   \<and> set (searchProducts products query) = {p \<in> set products. spec_matches query p}
   \<and> (\<forall>before p after.
        products = before @ [p] @ after
        \<and> sublist (toLowerCase query) (toLowerCase (description p))
        \<and> (\<forall>r\<in>set before \<union> set after. \<not> spec_matches query r)
        \<longrightarrow> searchProducts products query = [p])"
proof -
  have eq: "searchProducts products query = filter (spec_matches query) products" for products
    unfolding searchProducts_def Let_def
    by (rule filter_cong) (simp_all add: spec_matches_def includes_sublist)
  have one: "filter (spec_matches query) (before @ [p] @ after) = [p]"
    if "sublist (toLowerCase query) (toLowerCase (description p))"
      "\<forall>r\<in>set before \<union> set after. \<not> spec_matches query r" for before p after
  proof -
    from that(2) have "filter (spec_matches query) before = []" "filter (spec_matches query) after = []"
      by (simp_all add: filter_empty_conv)
    moreover from that(1) have "spec_matches query p" by (simp add: spec_matches_def)
    ultimately show ?thesis by simp
  qed
  have "subseq (filter (spec_matches query) products) products"
    and "set (filter (spec_matches query) products) = {p \<in> set products. spec_matches query p}"
    by simp_all
  moreover have "\<forall>before p after.
        products = before @ [p] @ after
        \<and> sublist (toLowerCase query) (toLowerCase (description p))
        \<and> (\<forall>r\<in>set before \<union> set after. \<not> spec_matches query r)
        \<longrightarrow> filter (spec_matches query) products = [p]"
    using one by blast
  ultimately show ?thesis
    unfolding eq by blast
qed

theorem search_is_substring_filter_witness:
  "searchProducts initialProducts ''RUBY'' = [initialProducts ! 2]"
proof -
  have "initialProducts = [initialProducts ! 0, initialProducts ! 1] @ [initialProducts ! 2] @ []"
    by (simp add: initialProducts_def)
  moreover have "sublist (toLowerCase ''RUBY'') (toLowerCase (description (initialProducts ! 2)))"
    unfolding includes_sublist [symmetric] by code_simp
  moreover have "\<forall>r\<in>set [initialProducts ! 0, initialProducts ! 1] \<union> set []. \<not> spec_matches ''RUBY'' r"
    unfolding spec_matches_def includes_sublist [symmetric] by code_simp
  ultimately show ?thesis
    using search_is_substring_filter [of initialProducts "''RUBY''"] by blast
qed

text \<open>
  Claim C10. \<open>updateProduct\<close> keeps the length of the list; a product whose id differs from the
  given one stays as it is at its position, a product with the given id is replaced at its
  position by its merge with the updates; when no product has the given id the list is
  unchanged.
\<close>

theorem update_keeps_shape:
  "length (updateProduct prev ident updates) = length prev
   \<and> (\<forall>j<length prev. pid (prev ! j) \<noteq> ident \<longrightarrow> updateProduct prev ident updates ! j = prev ! j)
   \<and> (\<forall>j<length prev. pid (prev ! j) = ident \<longrightarrow>
         updateProduct prev ident updates ! j = merge (prev ! j) updates)
   \<and> ((\<forall>p\<in>set prev. pid p \<noteq> ident) \<longrightarrow> updateProduct prev ident updates = prev)"
proof -
  have "updateProduct prev ident updates = prev" if "\<forall>p\<in>set prev. pid p \<noteq> ident"
    using that by (simp add: updateProduct_def map_idI)
  then show ?thesis by (simp add: updateProduct_def)
qed

theorem update_keeps_shape_witness:
  "updateProduct initialProducts ''7'' \<lparr>new_pid = None, new_name = Some ''Gold Stud'',
       new_price = None, new_offerPrice = None, new_images = None, new_category = None,
       new_description = None, new_stock = None\<rparr> = initialProducts
   \<and> updateProduct initialProducts ''3'' \<lparr>new_pid = None, new_name = Some ''Gold Stud'',
       new_price = None, new_offerPrice = None, new_images = None, new_category = None,
       new_description = None, new_stock = None\<rparr> ! 1 = initialProducts ! 1
   \<and> name (updateProduct initialProducts ''3'' \<lparr>new_pid = None, new_name = Some ''Gold Stud'',
       new_price = None, new_offerPrice = None, new_images = None, new_category = None,
       new_description = None, new_stock = None\<rparr> ! 2) = ''Gold Stud''"
proof -
  let ?u = "\<lparr>new_pid = None, new_name = Some ''Gold Stud'',
       new_price = None, new_offerPrice = None, new_images = None, new_category = None,
       new_description = None, new_stock = None\<rparr>"
  have "\<forall>p\<in>set initialProducts. pid p \<noteq> ''7''" by (simp add: initialProducts_def)
  then have "updateProduct initialProducts ''7'' ?u = initialProducts"
    using update_keeps_shape [of initialProducts "''7''" ?u] by blast
  moreover have "1 < length initialProducts" "pid (initialProducts ! 1) \<noteq> ''3''"
    "2 < length initialProducts" "pid (initialProducts ! 2) = ''3''"
    by (simp_all add: initialProducts_def)
  then have "updateProduct initialProducts ''3'' ?u ! 1 = initialProducts ! 1"
    "updateProduct initialProducts ''3'' ?u ! 2 = merge (initialProducts ! 2) ?u"
    using update_keeps_shape [of initialProducts "''3''" ?u] by blast+
  ultimately show ?thesis by (simp add: merge_def or_keep_def)
qed

end
